theory Spec2Isabelle
  imports Main
begin

section \<open>Python strings and the character tables of the runtime\<close>

text \<open>
  A Python \<open>str\<close> is a sequence of Unicode code points: a list of naturals.
  ASCII literals of the source are written with \<open>str\<close>; Marathi literals, and
  the characters a string literal of this file cannot hold, are written as their
  code points.
\<close>

type_synonym pystr = "nat list"

definition str :: "string \<Rightarrow> pystr" where
  "str s = map of_char s"

text \<open>
  The character classes behind \<open>str.strip\<close>, \<open>str.lower\<close> and the escapes
  \<open>\s\<close>, \<open>\d\<close>, \<open>\w\<close>, \<open>\b\<close> of \<open>re\<close> belong to the interpreter, not to the
  repository. The functions below take them as a parameter; \<open>cpython\<close> is the
  instance used to run them, with the tables of CPython 3.11 (Unicode 14.0.0).
  A table is a list of ranges of code points, both ends included, in ascending
  order.
\<close>

record unicodedata =
  isspace :: "nat \<Rightarrow> bool"
  isdecimal :: "nat \<Rightarrow> bool"
  isalnum :: "nat \<Rightarrow> bool"
  lower :: "pystr \<Rightarrow> pystr"

fun in_ranges :: "nat \<Rightarrow> (nat \<times> nat) list \<Rightarrow> bool" where
  "in_ranges c [] = False"
| "in_ranges c ((lo, hi) # rs) =
     (if c < lo then False else if c \<le> hi then True else in_ranges c rs)"

text \<open>\<open>str.isspace\<close>, which is also \<open>\s\<close>.\<close>

definition cpython_isspace :: "nat \<Rightarrow> bool" where
  "cpython_isspace c \<longleftrightarrow>
     (9 \<le> c \<and> c \<le> 13) \<or> (28 \<le> c \<and> c \<le> 32) \<or> c = 133 \<or> c = 160 \<or> c = 5760 \<or>
     (8192 \<le> c \<and> c \<le> 8202) \<or> c = 8232 \<or> c = 8233 \<or> c = 8239 \<or> c = 8287 \<or>
     c = 12288"

text \<open>\<open>str.isdecimal\<close>, which is also \<open>\d\<close>: the decimal digits of every script.\<close>

definition decimal_ranges :: "(nat \<times> nat) list" where
  "decimal_ranges =
     [(48, 57), (1632, 1641), (1776, 1785), (1984, 1993), (2406, 2415), (2534, 2543),
      (2662, 2671), (2790, 2799), (2918, 2927), (3046, 3055), (3174, 3183), (3302, 3311),
      (3430, 3439), (3558, 3567), (3664, 3673), (3792, 3801), (3872, 3881), (4160, 4169),
      (4240, 4249), (6112, 6121), (6160, 6169), (6470, 6479), (6608, 6617), (6784, 6793),
      (6800, 6809), (6992, 7001), (7088, 7097), (7232, 7241), (7248, 7257), (42528, 42537),
      (43216, 43225), (43264, 43273), (43472, 43481), (43504, 43513), (43600, 43609),
      (44016, 44025), (65296, 65305), (66720, 66729), (68912, 68921), (69734, 69743),
      (69872, 69881), (69942, 69951), (70096, 70105), (70384, 70393), (70736, 70745),
      (70864, 70873), (71248, 71257), (71360, 71369), (71472, 71481), (71904, 71913),
      (72016, 72025), (72784, 72793), (73040, 73049), (73120, 73129), (92768, 92777),
      (92864, 92873), (93008, 93017), (120782, 120831), (123200, 123209), (123632, 123641),
      (125264, 125273), (130032, 130041)]"

definition cpython_isdecimal :: "nat \<Rightarrow> bool" where
  "cpython_isdecimal c \<longleftrightarrow> in_ranges c decimal_ranges"

text \<open>
  \<open>str.isalnum\<close> of one character: a letter, a decimal digit, or another
  character with a numeric value. With the underscore it is \<open>\w\<close>.
\<close>

definition alnum_ranges :: "(nat \<times> nat) list" where
  "alnum_ranges =
     [(48, 57), (65, 90), (97, 122), (170, 170), (178, 179), (181, 181), (185, 186),
      (188, 190), (192, 214), (216, 246), (248, 705), (710, 721), (736, 740), (748, 748),
      (750, 750), (880, 884), (886, 887), (890, 893), (895, 895), (902, 902), (904, 906),
      (908, 908), (910, 929), (931, 1013), (1015, 1153), (1162, 1327), (1329, 1366),
      (1369, 1369), (1376, 1416), (1488, 1514), (1519, 1522), (1568, 1610), (1632, 1641),
      (1646, 1647), (1649, 1747), (1749, 1749), (1765, 1766), (1774, 1788), (1791, 1791),
      (1808, 1808), (1810, 1839), (1869, 1957), (1969, 1969), (1984, 2026), (2036, 2037),
      (2042, 2042), (2048, 2069), (2074, 2074), (2084, 2084), (2088, 2088), (2112, 2136),
      (2144, 2154), (2160, 2183), (2185, 2190), (2208, 2249), (2308, 2361), (2365, 2365),
      (2384, 2384), (2392, 2401), (2406, 2415), (2417, 2432), (2437, 2444), (2447, 2448),
      (2451, 2472), (2474, 2480), (2482, 2482), (2486, 2489), (2493, 2493), (2510, 2510),
      (2524, 2525), (2527, 2529), (2534, 2545), (2548, 2553), (2556, 2556), (2565, 2570),
      (2575, 2576), (2579, 2600), (2602, 2608), (2610, 2611), (2613, 2614), (2616, 2617),
      (2649, 2652), (2654, 2654), (2662, 2671), (2674, 2676), (2693, 2701), (2703, 2705),
      (2707, 2728), (2730, 2736), (2738, 2739), (2741, 2745), (2749, 2749), (2768, 2768),
      (2784, 2785), (2790, 2799), (2809, 2809), (2821, 2828), (2831, 2832), (2835, 2856),
      (2858, 2864), (2866, 2867), (2869, 2873), (2877, 2877), (2908, 2909), (2911, 2913),
      (2918, 2927), (2929, 2935), (2947, 2947), (2949, 2954), (2958, 2960), (2962, 2965),
      (2969, 2970), (2972, 2972), (2974, 2975), (2979, 2980), (2984, 2986), (2990, 3001),
      (3024, 3024), (3046, 3058), (3077, 3084), (3086, 3088), (3090, 3112), (3114, 3129),
      (3133, 3133), (3160, 3162), (3165, 3165), (3168, 3169), (3174, 3183), (3192, 3198),
      (3200, 3200), (3205, 3212), (3214, 3216), (3218, 3240), (3242, 3251), (3253, 3257),
      (3261, 3261), (3293, 3294), (3296, 3297), (3302, 3311), (3313, 3314), (3332, 3340),
      (3342, 3344), (3346, 3386), (3389, 3389), (3406, 3406), (3412, 3414), (3416, 3425),
      (3430, 3448), (3450, 3455), (3461, 3478), (3482, 3505), (3507, 3515), (3517, 3517),
      (3520, 3526), (3558, 3567), (3585, 3632), (3634, 3635), (3648, 3654), (3664, 3673),
      (3713, 3714), (3716, 3716), (3718, 3722), (3724, 3747), (3749, 3749), (3751, 3760),
      (3762, 3763), (3773, 3773), (3776, 3780), (3782, 3782), (3792, 3801), (3804, 3807),
      (3840, 3840), (3872, 3891), (3904, 3911), (3913, 3948), (3976, 3980), (4096, 4138),
      (4159, 4169), (4176, 4181), (4186, 4189), (4193, 4193), (4197, 4198), (4206, 4208),
      (4213, 4225), (4238, 4238), (4240, 4249), (4256, 4293), (4295, 4295), (4301, 4301),
      (4304, 4346), (4348, 4680), (4682, 4685), (4688, 4694), (4696, 4696), (4698, 4701),
      (4704, 4744), (4746, 4749), (4752, 4784), (4786, 4789), (4792, 4798), (4800, 4800),
      (4802, 4805), (4808, 4822), (4824, 4880), (4882, 4885), (4888, 4954), (4969, 4988),
      (4992, 5007), (5024, 5109), (5112, 5117), (5121, 5740), (5743, 5759), (5761, 5786),
      (5792, 5866), (5870, 5880), (5888, 5905), (5919, 5937), (5952, 5969), (5984, 5996),
      (5998, 6000), (6016, 6067), (6103, 6103), (6108, 6108), (6112, 6121), (6128, 6137),
      (6160, 6169), (6176, 6264), (6272, 6276), (6279, 6312), (6314, 6314), (6320, 6389),
      (6400, 6430), (6470, 6509), (6512, 6516), (6528, 6571), (6576, 6601), (6608, 6618),
      (6656, 6678), (6688, 6740), (6784, 6793), (6800, 6809), (6823, 6823), (6917, 6963),
      (6981, 6988), (6992, 7001), (7043, 7072), (7086, 7141), (7168, 7203), (7232, 7241),
      (7245, 7293), (7296, 7304), (7312, 7354), (7357, 7359), (7401, 7404), (7406, 7411),
      (7413, 7414), (7418, 7418), (7424, 7615), (7680, 7957), (7960, 7965), (7968, 8005),
      (8008, 8013), (8016, 8023), (8025, 8025), (8027, 8027), (8029, 8029), (8031, 8061),
      (8064, 8116), (8118, 8124), (8126, 8126), (8130, 8132), (8134, 8140), (8144, 8147),
      (8150, 8155), (8160, 8172), (8178, 8180), (8182, 8188), (8304, 8305), (8308, 8313),
      (8319, 8329), (8336, 8348), (8450, 8450), (8455, 8455), (8458, 8467), (8469, 8469),
      (8473, 8477), (8484, 8484), (8486, 8486), (8488, 8488), (8490, 8493), (8495, 8505),
      (8508, 8511), (8517, 8521), (8526, 8526), (8528, 8585), (9312, 9371), (9450, 9471),
      (10102, 10131), (11264, 11492), (11499, 11502), (11506, 11507), (11517, 11517),
      (11520, 11557), (11559, 11559), (11565, 11565), (11568, 11623), (11631, 11631),
      (11648, 11670), (11680, 11686), (11688, 11694), (11696, 11702), (11704, 11710),
      (11712, 11718), (11720, 11726), (11728, 11734), (11736, 11742), (11823, 11823),
      (12293, 12295), (12321, 12329), (12337, 12341), (12344, 12348), (12353, 12438),
      (12445, 12447), (12449, 12538), (12540, 12543), (12549, 12591), (12593, 12686),
      (12690, 12693), (12704, 12735), (12784, 12799), (12832, 12841), (12872, 12879),
      (12881, 12895), (12928, 12937), (12977, 12991), (13312, 19903), (19968, 42124),
      (42192, 42237), (42240, 42508), (42512, 42539), (42560, 42606), (42623, 42653),
      (42656, 42735), (42775, 42783), (42786, 42888), (42891, 42954), (42960, 42961),
      (42963, 42963), (42965, 42969), (42994, 43009), (43011, 43013), (43015, 43018),
      (43020, 43042), (43056, 43061), (43072, 43123), (43138, 43187), (43216, 43225),
      (43250, 43255), (43259, 43259), (43261, 43262), (43264, 43301), (43312, 43334),
      (43360, 43388), (43396, 43442), (43471, 43481), (43488, 43492), (43494, 43518),
      (43520, 43560), (43584, 43586), (43588, 43595), (43600, 43609), (43616, 43638),
      (43642, 43642), (43646, 43695), (43697, 43697), (43701, 43702), (43705, 43709),
      (43712, 43712), (43714, 43714), (43739, 43741), (43744, 43754), (43762, 43764),
      (43777, 43782), (43785, 43790), (43793, 43798), (43808, 43814), (43816, 43822),
      (43824, 43866), (43868, 43881), (43888, 44002), (44016, 44025), (44032, 55203),
      (55216, 55238), (55243, 55291), (63744, 64109), (64112, 64217), (64256, 64262),
      (64275, 64279), (64285, 64285), (64287, 64296), (64298, 64310), (64312, 64316),
      (64318, 64318), (64320, 64321), (64323, 64324), (64326, 64433), (64467, 64829),
      (64848, 64911), (64914, 64967), (65008, 65019), (65136, 65140), (65142, 65276),
      (65296, 65305), (65313, 65338), (65345, 65370), (65382, 65470), (65474, 65479),
      (65482, 65487), (65490, 65495), (65498, 65500), (65536, 65547), (65549, 65574),
      (65576, 65594), (65596, 65597), (65599, 65613), (65616, 65629), (65664, 65786),
      (65799, 65843), (65856, 65912), (65930, 65931), (66176, 66204), (66208, 66256),
      (66273, 66299), (66304, 66339), (66349, 66378), (66384, 66421), (66432, 66461),
      (66464, 66499), (66504, 66511), (66513, 66517), (66560, 66717), (66720, 66729),
      (66736, 66771), (66776, 66811), (66816, 66855), (66864, 66915), (66928, 66938),
      (66940, 66954), (66956, 66962), (66964, 66965), (66967, 66977), (66979, 66993),
      (66995, 67001), (67003, 67004), (67072, 67382), (67392, 67413), (67424, 67431),
      (67456, 67461), (67463, 67504), (67506, 67514), (67584, 67589), (67592, 67592),
      (67594, 67637), (67639, 67640), (67644, 67644), (67647, 67669), (67672, 67702),
      (67705, 67742), (67751, 67759), (67808, 67826), (67828, 67829), (67835, 67867),
      (67872, 67897), (67968, 68023), (68028, 68047), (68050, 68096), (68112, 68115),
      (68117, 68119), (68121, 68149), (68160, 68168), (68192, 68222), (68224, 68255),
      (68288, 68295), (68297, 68324), (68331, 68335), (68352, 68405), (68416, 68437),
      (68440, 68466), (68472, 68497), (68521, 68527), (68608, 68680), (68736, 68786),
      (68800, 68850), (68858, 68899), (68912, 68921), (69216, 69246), (69248, 69289),
      (69296, 69297), (69376, 69415), (69424, 69445), (69457, 69460), (69488, 69505),
      (69552, 69579), (69600, 69622), (69635, 69687), (69714, 69743), (69745, 69746),
      (69749, 69749), (69763, 69807), (69840, 69864), (69872, 69881), (69891, 69926),
      (69942, 69951), (69956, 69956), (69959, 69959), (69968, 70002), (70006, 70006),
      (70019, 70066), (70081, 70084), (70096, 70106), (70108, 70108), (70113, 70132),
      (70144, 70161), (70163, 70187), (70272, 70278), (70280, 70280), (70282, 70285),
      (70287, 70301), (70303, 70312), (70320, 70366), (70384, 70393), (70405, 70412),
      (70415, 70416), (70419, 70440), (70442, 70448), (70450, 70451), (70453, 70457),
      (70461, 70461), (70480, 70480), (70493, 70497), (70656, 70708), (70727, 70730),
      (70736, 70745), (70751, 70753), (70784, 70831), (70852, 70853), (70855, 70855),
      (70864, 70873), (71040, 71086), (71128, 71131), (71168, 71215), (71236, 71236),
      (71248, 71257), (71296, 71338), (71352, 71352), (71360, 71369), (71424, 71450),
      (71472, 71483), (71488, 71494), (71680, 71723), (71840, 71922), (71935, 71942),
      (71945, 71945), (71948, 71955), (71957, 71958), (71960, 71983), (71999, 71999),
      (72001, 72001), (72016, 72025), (72096, 72103), (72106, 72144), (72161, 72161),
      (72163, 72163), (72192, 72192), (72203, 72242), (72250, 72250), (72272, 72272),
      (72284, 72329), (72349, 72349), (72368, 72440), (72704, 72712), (72714, 72750),
      (72768, 72768), (72784, 72812), (72818, 72847), (72960, 72966), (72968, 72969),
      (72971, 73008), (73030, 73030), (73040, 73049), (73056, 73061), (73063, 73064),
      (73066, 73097), (73112, 73112), (73120, 73129), (73440, 73458), (73648, 73648),
      (73664, 73684), (73728, 74649), (74752, 74862), (74880, 75075), (77712, 77808),
      (77824, 78894), (82944, 83526), (92160, 92728), (92736, 92766), (92768, 92777),
      (92784, 92862), (92864, 92873), (92880, 92909), (92928, 92975), (92992, 92995),
      (93008, 93017), (93019, 93025), (93027, 93047), (93053, 93071), (93760, 93846),
      (93952, 94026), (94032, 94032), (94099, 94111), (94176, 94177), (94179, 94179),
      (94208, 100343), (100352, 101589), (101632, 101640), (110576, 110579),
      (110581, 110587), (110589, 110590), (110592, 110882), (110928, 110930),
      (110948, 110951), (110960, 111355), (113664, 113770), (113776, 113788),
      (113792, 113800), (113808, 113817), (119520, 119539), (119648, 119672),
      (119808, 119892), (119894, 119964), (119966, 119967), (119970, 119970),
      (119973, 119974), (119977, 119980), (119982, 119993), (119995, 119995),
      (119997, 120003), (120005, 120069), (120071, 120074), (120077, 120084),
      (120086, 120092), (120094, 120121), (120123, 120126), (120128, 120132),
      (120134, 120134), (120138, 120144), (120146, 120485), (120488, 120512),
      (120514, 120538), (120540, 120570), (120572, 120596), (120598, 120628),
      (120630, 120654), (120656, 120686), (120688, 120712), (120714, 120744),
      (120746, 120770), (120772, 120779), (120782, 120831), (122624, 122654),
      (123136, 123180), (123191, 123197), (123200, 123209), (123214, 123214),
      (123536, 123565), (123584, 123627), (123632, 123641), (124896, 124902),
      (124904, 124907), (124909, 124910), (124912, 124926), (124928, 125124),
      (125127, 125135), (125184, 125251), (125259, 125259), (125264, 125273),
      (126065, 126123), (126125, 126127), (126129, 126132), (126209, 126253),
      (126255, 126269), (126464, 126467), (126469, 126495), (126497, 126498),
      (126500, 126500), (126503, 126503), (126505, 126514), (126516, 126519),
      (126521, 126521), (126523, 126523), (126530, 126530), (126535, 126535),
      (126537, 126537), (126539, 126539), (126541, 126543), (126545, 126546),
      (126548, 126548), (126551, 126551), (126553, 126553), (126555, 126555),
      (126557, 126557), (126559, 126559), (126561, 126562), (126564, 126564),
      (126567, 126570), (126572, 126578), (126580, 126583), (126585, 126588),
      (126590, 126590), (126592, 126601), (126603, 126619), (126625, 126627),
      (126629, 126633), (126635, 126651), (127232, 127244), (130032, 130041),
      (131072, 173791), (173824, 177976), (177984, 178205), (178208, 183969),
      (183984, 191456), (194560, 195101), (196608, 201546)]"

definition cpython_isalnum :: "nat \<Rightarrow> bool" where
  "cpython_isalnum c \<longleftrightarrow> in_ranges c alnum_ranges"

text \<open>
  \<open>str.lower\<close>. A character other than the capital sigma U+03A3 is replaced by
  its lower case, whatever stands around it: \<open>lower_runs\<close> lists the characters
  that have one, as runs \<open>(lo, hi, step, target)\<close>: the characters \<open>lo\<close>,
  \<open>lo + step\<close>, ... up to \<open>hi\<close> go to \<open>target\<close>, \<open>target + step\<close>, ...; U+0130
  alone becomes two characters.
\<close>

definition lower_runs :: "(nat \<times> nat \<times> nat \<times> nat) list" where
  "lower_runs =
     [(65, 90, 1, 97), (192, 214, 1, 224), (216, 222, 1, 248), (256, 302, 2, 257),
      (306, 310, 2, 307), (313, 327, 2, 314), (330, 374, 2, 331), (376, 376, 1, 255),
      (377, 381, 2, 378), (385, 385, 1, 595), (386, 388, 2, 387), (390, 390, 1, 596),
      (391, 391, 1, 392), (393, 394, 1, 598), (395, 395, 1, 396), (398, 398, 1, 477),
      (399, 399, 1, 601), (400, 400, 1, 603), (401, 401, 1, 402), (403, 403, 1, 608),
      (404, 404, 1, 611), (406, 406, 1, 617), (407, 407, 1, 616), (408, 408, 1, 409),
      (412, 412, 1, 623), (413, 413, 1, 626), (415, 415, 1, 629), (416, 420, 2, 417),
      (422, 422, 1, 640), (423, 423, 1, 424), (425, 425, 1, 643), (428, 428, 1, 429),
      (430, 430, 1, 648), (431, 431, 1, 432), (433, 434, 1, 650), (435, 437, 2, 436),
      (439, 439, 1, 658), (440, 440, 1, 441), (444, 444, 1, 445), (452, 452, 1, 454),
      (453, 453, 1, 454), (455, 455, 1, 457), (456, 456, 1, 457), (458, 458, 1, 460),
      (459, 475, 2, 460), (478, 494, 2, 479), (497, 497, 1, 499), (498, 500, 2, 499),
      (502, 502, 1, 405), (503, 503, 1, 447), (504, 542, 2, 505), (544, 544, 1, 414),
      (546, 562, 2, 547), (570, 570, 1, 11365), (571, 571, 1, 572), (573, 573, 1, 410),
      (574, 574, 1, 11366), (577, 577, 1, 578), (579, 579, 1, 384), (580, 580, 1, 649),
      (581, 581, 1, 652), (582, 590, 2, 583), (880, 882, 2, 881), (886, 886, 1, 887),
      (895, 895, 1, 1011), (902, 902, 1, 940), (904, 906, 1, 941), (908, 908, 1, 972),
      (910, 911, 1, 973), (913, 929, 1, 945), (932, 939, 1, 964), (975, 975, 1, 983),
      (984, 1006, 2, 985), (1012, 1012, 1, 952), (1015, 1015, 1, 1016),
      (1017, 1017, 1, 1010), (1018, 1018, 1, 1019), (1021, 1023, 1, 891),
      (1024, 1039, 1, 1104), (1040, 1071, 1, 1072), (1120, 1152, 2, 1121),
      (1162, 1214, 2, 1163), (1216, 1216, 1, 1231), (1217, 1229, 2, 1218),
      (1232, 1326, 2, 1233), (1329, 1366, 1, 1377), (4256, 4293, 1, 11520),
      (4295, 4295, 1, 11559), (4301, 4301, 1, 11565), (5024, 5103, 1, 43888),
      (5104, 5109, 1, 5112), (7312, 7354, 1, 4304), (7357, 7359, 1, 4349),
      (7680, 7828, 2, 7681), (7838, 7838, 1, 223), (7840, 7934, 2, 7841),
      (7944, 7951, 1, 7936), (7960, 7965, 1, 7952), (7976, 7983, 1, 7968),
      (7992, 7999, 1, 7984), (8008, 8013, 1, 8000), (8025, 8031, 2, 8017),
      (8040, 8047, 1, 8032), (8072, 8079, 1, 8064), (8088, 8095, 1, 8080),
      (8104, 8111, 1, 8096), (8120, 8121, 1, 8112), (8122, 8123, 1, 8048),
      (8124, 8124, 1, 8115), (8136, 8139, 1, 8050), (8140, 8140, 1, 8131),
      (8152, 8153, 1, 8144), (8154, 8155, 1, 8054), (8168, 8169, 1, 8160),
      (8170, 8171, 1, 8058), (8172, 8172, 1, 8165), (8184, 8185, 1, 8056),
      (8186, 8187, 1, 8060), (8188, 8188, 1, 8179), (8486, 8486, 1, 969),
      (8490, 8490, 1, 107), (8491, 8491, 1, 229), (8498, 8498, 1, 8526),
      (8544, 8559, 1, 8560), (8579, 8579, 1, 8580), (9398, 9423, 1, 9424),
      (11264, 11311, 1, 11312), (11360, 11360, 1, 11361), (11362, 11362, 1, 619),
      (11363, 11363, 1, 7549), (11364, 11364, 1, 637), (11367, 11371, 2, 11368),
      (11373, 11373, 1, 593), (11374, 11374, 1, 625), (11375, 11375, 1, 592),
      (11376, 11376, 1, 594), (11378, 11378, 1, 11379), (11381, 11381, 1, 11382),
      (11390, 11391, 1, 575), (11392, 11490, 2, 11393), (11499, 11501, 2, 11500),
      (11506, 11506, 1, 11507), (42560, 42604, 2, 42561), (42624, 42650, 2, 42625),
      (42786, 42798, 2, 42787), (42802, 42862, 2, 42803), (42873, 42875, 2, 42874),
      (42877, 42877, 1, 7545), (42878, 42886, 2, 42879), (42891, 42891, 1, 42892),
      (42893, 42893, 1, 613), (42896, 42898, 2, 42897), (42902, 42920, 2, 42903),
      (42922, 42922, 1, 614), (42923, 42923, 1, 604), (42924, 42924, 1, 609),
      (42925, 42925, 1, 620), (42926, 42926, 1, 618), (42928, 42928, 1, 670),
      (42929, 42929, 1, 647), (42930, 42930, 1, 669), (42931, 42931, 1, 43859),
      (42932, 42946, 2, 42933), (42948, 42948, 1, 42900), (42949, 42949, 1, 642),
      (42950, 42950, 1, 7566), (42951, 42953, 2, 42952), (42960, 42960, 1, 42961),
      (42966, 42968, 2, 42967), (42997, 42997, 1, 42998), (65313, 65338, 1, 65345),
      (66560, 66599, 1, 66600), (66736, 66771, 1, 66776), (66928, 66938, 1, 66967),
      (66940, 66954, 1, 66979), (66956, 66962, 1, 66995), (66964, 66965, 1, 67003),
      (68736, 68786, 1, 68800), (71840, 71871, 1, 71872), (93760, 93791, 1, 93792),
      (125184, 125217, 1, 125218)]"

fun lower_in :: "nat \<Rightarrow> (nat \<times> nat \<times> nat \<times> nat) list \<Rightarrow> nat" where
  "lower_in c [] = c"
| "lower_in c ((lo, hi, step, target) # runs) =
     (if c < lo then c
      else if c \<le> hi \<and> (c - lo) mod step = 0 then target + (c - lo)
      else lower_in c runs)"

definition lower_char :: "nat \<Rightarrow> pystr" where
  "lower_char c = (if c = 304 then [105, 775] else [lower_in c lower_runs])"

text \<open>
  A capital sigma becomes the final sigma U+03C2 when it ends a word and the
  small sigma U+03C3 otherwise. It ends a word when the nearest character before
  it that is not case-ignorable is a cased one, and the nearest such character
  after it, if there is one, is not. \<open>cased_ranges\<close> holds the cased characters
  among those that are not case-ignorable, the only ones the test is made on.
\<close>

definition case_ignorable_ranges :: "(nat \<times> nat) list" where
  "case_ignorable_ranges =
     [(39, 39), (46, 46), (58, 58), (94, 94), (96, 96), (168, 168), (173, 173), (175, 175),
      (180, 180), (183, 184), (688, 879), (884, 885), (890, 890), (900, 901), (903, 903),
      (1155, 1161), (1369, 1369), (1375, 1375), (1425, 1469), (1471, 1471), (1473, 1474),
      (1476, 1477), (1479, 1479), (1524, 1524), (1536, 1541), (1552, 1562), (1564, 1564),
      (1600, 1600), (1611, 1631), (1648, 1648), (1750, 1757), (1759, 1768), (1770, 1773),
      (1807, 1807), (1809, 1809), (1840, 1866), (1958, 1968), (2027, 2037), (2042, 2042),
      (2045, 2045), (2070, 2093), (2137, 2139), (2184, 2184), (2192, 2193), (2200, 2207),
      (2249, 2306), (2362, 2362), (2364, 2364), (2369, 2376), (2381, 2381), (2385, 2391),
      (2402, 2403), (2417, 2417), (2433, 2433), (2492, 2492), (2497, 2500), (2509, 2509),
      (2530, 2531), (2558, 2558), (2561, 2562), (2620, 2620), (2625, 2626), (2631, 2632),
      (2635, 2637), (2641, 2641), (2672, 2673), (2677, 2677), (2689, 2690), (2748, 2748),
      (2753, 2757), (2759, 2760), (2765, 2765), (2786, 2787), (2810, 2815), (2817, 2817),
      (2876, 2876), (2879, 2879), (2881, 2884), (2893, 2893), (2901, 2902), (2914, 2915),
      (2946, 2946), (3008, 3008), (3021, 3021), (3072, 3072), (3076, 3076), (3132, 3132),
      (3134, 3136), (3142, 3144), (3146, 3149), (3157, 3158), (3170, 3171), (3201, 3201),
      (3260, 3260), (3263, 3263), (3270, 3270), (3276, 3277), (3298, 3299), (3328, 3329),
      (3387, 3388), (3393, 3396), (3405, 3405), (3426, 3427), (3457, 3457), (3530, 3530),
      (3538, 3540), (3542, 3542), (3633, 3633), (3636, 3642), (3654, 3662), (3761, 3761),
      (3764, 3772), (3782, 3782), (3784, 3789), (3864, 3865), (3893, 3893), (3895, 3895),
      (3897, 3897), (3953, 3966), (3968, 3972), (3974, 3975), (3981, 3991), (3993, 4028),
      (4038, 4038), (4141, 4144), (4146, 4151), (4153, 4154), (4157, 4158), (4184, 4185),
      (4190, 4192), (4209, 4212), (4226, 4226), (4229, 4230), (4237, 4237), (4253, 4253),
      (4348, 4348), (4957, 4959), (5906, 5908), (5938, 5939), (5970, 5971), (6002, 6003),
      (6068, 6069), (6071, 6077), (6086, 6086), (6089, 6099), (6103, 6103), (6109, 6109),
      (6155, 6159), (6211, 6211), (6277, 6278), (6313, 6313), (6432, 6434), (6439, 6440),
      (6450, 6450), (6457, 6459), (6679, 6680), (6683, 6683), (6742, 6742), (6744, 6750),
      (6752, 6752), (6754, 6754), (6757, 6764), (6771, 6780), (6783, 6783), (6823, 6823),
      (6832, 6862), (6912, 6915), (6964, 6964), (6966, 6970), (6972, 6972), (6978, 6978),
      (7019, 7027), (7040, 7041), (7074, 7077), (7080, 7081), (7083, 7085), (7142, 7142),
      (7144, 7145), (7149, 7149), (7151, 7153), (7212, 7219), (7222, 7223), (7288, 7293),
      (7376, 7378), (7380, 7392), (7394, 7400), (7405, 7405), (7412, 7412), (7416, 7417),
      (7468, 7530), (7544, 7544), (7579, 7679), (8125, 8125), (8127, 8129), (8141, 8143),
      (8157, 8159), (8173, 8175), (8189, 8190), (8203, 8207), (8216, 8217), (8228, 8228),
      (8231, 8231), (8234, 8238), (8288, 8292), (8294, 8303), (8305, 8305), (8319, 8319),
      (8336, 8348), (8400, 8432), (11388, 11389), (11503, 11505), (11631, 11631),
      (11647, 11647), (11744, 11775), (11823, 11823), (12293, 12293), (12330, 12333),
      (12337, 12341), (12347, 12347), (12441, 12446), (12540, 12542), (40981, 40981),
      (42232, 42237), (42508, 42508), (42607, 42610), (42612, 42621), (42623, 42623),
      (42652, 42655), (42736, 42737), (42752, 42785), (42864, 42864), (42888, 42890),
      (42994, 42996), (43000, 43001), (43010, 43010), (43014, 43014), (43019, 43019),
      (43045, 43046), (43052, 43052), (43204, 43205), (43232, 43249), (43263, 43263),
      (43302, 43309), (43335, 43345), (43392, 43394), (43443, 43443), (43446, 43449),
      (43452, 43453), (43471, 43471), (43493, 43494), (43561, 43566), (43569, 43570),
      (43573, 43574), (43587, 43587), (43596, 43596), (43632, 43632), (43644, 43644),
      (43696, 43696), (43698, 43700), (43703, 43704), (43710, 43711), (43713, 43713),
      (43741, 43741), (43756, 43757), (43763, 43764), (43766, 43766), (43867, 43871),
      (43881, 43883), (44005, 44005), (44008, 44008), (44013, 44013), (64286, 64286),
      (64434, 64450), (65024, 65039), (65043, 65043), (65056, 65071), (65106, 65106),
      (65109, 65109), (65279, 65279), (65287, 65287), (65294, 65294), (65306, 65306),
      (65342, 65342), (65344, 65344), (65392, 65392), (65438, 65439), (65507, 65507),
      (65529, 65531), (66045, 66045), (66272, 66272), (66422, 66426), (67456, 67461),
      (67463, 67504), (67506, 67514), (68097, 68099), (68101, 68102), (68108, 68111),
      (68152, 68154), (68159, 68159), (68325, 68326), (68900, 68903), (69291, 69292),
      (69446, 69456), (69506, 69509), (69633, 69633), (69688, 69702), (69744, 69744),
      (69747, 69748), (69759, 69761), (69811, 69814), (69817, 69818), (69821, 69821),
      (69826, 69826), (69837, 69837), (69888, 69890), (69927, 69931), (69933, 69940),
      (70003, 70003), (70016, 70017), (70070, 70078), (70089, 70092), (70095, 70095),
      (70191, 70193), (70196, 70196), (70198, 70199), (70206, 70206), (70367, 70367),
      (70371, 70378), (70400, 70401), (70459, 70460), (70464, 70464), (70502, 70508),
      (70512, 70516), (70712, 70719), (70722, 70724), (70726, 70726), (70750, 70750),
      (70835, 70840), (70842, 70842), (70847, 70848), (70850, 70851), (71090, 71093),
      (71100, 71101), (71103, 71104), (71132, 71133), (71219, 71226), (71229, 71229),
      (71231, 71232), (71339, 71339), (71341, 71341), (71344, 71349), (71351, 71351),
      (71453, 71455), (71458, 71461), (71463, 71467), (71727, 71735), (71737, 71738),
      (71995, 71996), (71998, 71998), (72003, 72003), (72148, 72151), (72154, 72155),
      (72160, 72160), (72193, 72202), (72243, 72248), (72251, 72254), (72263, 72263),
      (72273, 72278), (72281, 72283), (72330, 72342), (72344, 72345), (72752, 72758),
      (72760, 72765), (72767, 72767), (72850, 72871), (72874, 72880), (72882, 72883),
      (72885, 72886), (73009, 73014), (73018, 73018), (73020, 73021), (73023, 73029),
      (73031, 73031), (73104, 73105), (73109, 73109), (73111, 73111), (73459, 73460),
      (78896, 78904), (92912, 92916), (92976, 92982), (92992, 92995), (94031, 94031),
      (94095, 94111), (94176, 94177), (94179, 94180), (110576, 110579), (110581, 110587),
      (110589, 110590), (113821, 113822), (113824, 113827), (118528, 118573),
      (118576, 118598), (119143, 119145), (119155, 119170), (119173, 119179),
      (119210, 119213), (119362, 119364), (121344, 121398), (121403, 121452),
      (121461, 121461), (121476, 121476), (121499, 121503), (121505, 121519),
      (122880, 122886), (122888, 122904), (122907, 122913), (122915, 122916),
      (122918, 122922), (123184, 123197), (123566, 123566), (123628, 123631),
      (125136, 125142), (125252, 125259), (127995, 127999), (917505, 917505),
      (917536, 917631), (917760, 917999)]"

definition cased_ranges :: "(nat \<times> nat) list" where
  "cased_ranges =
     [(65, 90), (97, 122), (170, 170), (181, 181), (186, 186), (192, 214), (216, 246),
      (248, 442), (444, 447), (452, 659), (661, 687), (880, 883), (886, 887), (891, 893),
      (895, 895), (902, 902), (904, 906), (908, 908), (910, 929), (931, 1013), (1015, 1153),
      (1162, 1327), (1329, 1366), (1376, 1416), (4256, 4293), (4295, 4295), (4301, 4301),
      (4304, 4346), (4349, 4351), (5024, 5109), (5112, 5117), (7296, 7304), (7312, 7354),
      (7357, 7359), (7424, 7467), (7531, 7543), (7545, 7578), (7680, 7957), (7960, 7965),
      (7968, 8005), (8008, 8013), (8016, 8023), (8025, 8025), (8027, 8027), (8029, 8029),
      (8031, 8061), (8064, 8116), (8118, 8124), (8126, 8126), (8130, 8132), (8134, 8140),
      (8144, 8147), (8150, 8155), (8160, 8172), (8178, 8180), (8182, 8188), (8450, 8450),
      (8455, 8455), (8458, 8467), (8469, 8469), (8473, 8477), (8484, 8484), (8486, 8486),
      (8488, 8488), (8490, 8493), (8495, 8500), (8505, 8505), (8508, 8511), (8517, 8521),
      (8526, 8526), (8544, 8575), (8579, 8580), (9398, 9449), (11264, 11387), (11390, 11492),
      (11499, 11502), (11506, 11507), (11520, 11557), (11559, 11559), (11565, 11565),
      (42560, 42605), (42624, 42651), (42786, 42863), (42865, 42887), (42891, 42894),
      (42896, 42954), (42960, 42961), (42963, 42963), (42965, 42969), (42997, 42998),
      (43002, 43002), (43824, 43866), (43872, 43880), (43888, 43967), (64256, 64262),
      (64275, 64279), (65313, 65338), (65345, 65370), (66560, 66639), (66736, 66771),
      (66776, 66811), (66928, 66938), (66940, 66954), (66956, 66962), (66964, 66965),
      (66967, 66977), (66979, 66993), (66995, 67001), (67003, 67004), (68736, 68786),
      (68800, 68850), (71840, 71903), (93760, 93823), (119808, 119892), (119894, 119964),
      (119966, 119967), (119970, 119970), (119973, 119974), (119977, 119980),
      (119982, 119993), (119995, 119995), (119997, 120003), (120005, 120069),
      (120071, 120074), (120077, 120084), (120086, 120092), (120094, 120121),
      (120123, 120126), (120128, 120132), (120134, 120134), (120138, 120144),
      (120146, 120485), (120488, 120512), (120514, 120538), (120540, 120570),
      (120572, 120596), (120598, 120628), (120630, 120654), (120656, 120686),
      (120688, 120712), (120714, 120744), (120746, 120770), (120772, 120779),
      (122624, 122633), (122635, 122654), (125184, 125251), (127280, 127305),
      (127312, 127337), (127344, 127369)]"

definition final_sigma :: "pystr \<Rightarrow> pystr \<Rightarrow> bool" where
  "final_sigma front rest \<longleftrightarrow>
     (case dropWhile (\<lambda>c. in_ranges c case_ignorable_ranges) front of
        [] \<Rightarrow> False
      | c # s \<Rightarrow> in_ranges c cased_ranges)
     \<and> (case dropWhile (\<lambda>c. in_ranges c case_ignorable_ranges) rest of
          [] \<Rightarrow> True
        | c # s \<Rightarrow> \<not> in_ranges c cased_ranges)"

text \<open>\<open>lower_from front s\<close> lowers \<open>s\<close>; \<open>front\<close> holds the characters in front of
  it, the nearest first.\<close>

fun lower_from :: "pystr \<Rightarrow> pystr \<Rightarrow> pystr" where
  "lower_from front [] = []"
| "lower_from front (c # rest) =
     (if c = 931 then [if final_sigma front rest then 962 else 963] else lower_char c)
     @ lower_from (c # front) rest"

definition cpython_lower :: "pystr \<Rightarrow> pystr" where
  "cpython_lower s = lower_from [] s"

definition cpython :: unicodedata where
  "cpython = \<lparr>isspace = cpython_isspace, isdecimal = cpython_isdecimal,
              isalnum = cpython_isalnum, lower = cpython_lower\<rparr>"

text \<open>
  The texts of the scenarios are in Basic Latin (U+0000 to U+007F) and in the
  Devanagari block (U+0900 to U+097F). On these the tables of \<open>cpython\<close> come
  down to a few ranges, which is how they are evaluated in the proofs: \<open>plain_script\<close> is
  the test for the two blocks.
\<close>

definition plain_script :: "nat \<Rightarrow> bool" where
  "plain_script c \<longleftrightarrow> c < 128 \<or> (2304 \<le> c \<and> c < 2432)"

text \<open>\<open>s.strip()\<close>: white space removed at both ends.\<close>

definition strip :: "unicodedata \<Rightarrow> pystr \<Rightarrow> pystr" where
  "strip U s = rev (dropWhile (isspace U) (rev (dropWhile (isspace U) s)))"

text \<open>\<open>needle in s\<close> on strings: \<open>needle\<close> occurs in \<open>s\<close> as a substring.\<close>

fun contains :: "pystr \<Rightarrow> pystr \<Rightarrow> bool" where
  "contains [] needle = (needle = [])"
| "contains (c # s) needle =
     (take (length needle) (c # s) = needle \<or> contains s needle)"

section \<open>The fragment of \<open>re\<close> the source uses\<close>

text \<open>
  Character classes: a literal, a range \<open>[a-b]\<close>, \<open>\d\<close>, \<open>\s\<close>, and a union.
  Patterns: one character of a class; a greedy repetition \<open>{lo,hi}\<close> of a class
  (\<open>*\<close> is \<open>Rep c 0 None\<close>, \<open>+\<close> is \<open>Rep c 1 None\<close>); a literal string; the
  word boundary \<open>\b\<close>; sequence; alternation; a numbered capture group; a greedy
  optional \<open>r?\<close>; the anchors \<open>^\<close> and \<open>$\<close> (without MULTILINE, \<open>$\<close> also
  matches before a line feed that ends the string).
\<close>

datatype cset = Lit nat | Rng nat nat | Digit | Space | AnyOf "cset list"

fun in_cset :: "unicodedata \<Rightarrow> cset \<Rightarrow> nat \<Rightarrow> bool" where
  "in_cset U (Lit a) c = (c = a)"
| "in_cset U (Rng a b) c = (a \<le> c \<and> c \<le> b)"
| "in_cset U Digit c = isdecimal U c"
| "in_cset U Space c = isspace U c"
| "in_cset U (AnyOf cs) c = list_ex (\<lambda>k. in_cset U k c) cs"

datatype regex =
    Chr cset
  | Rep cset nat "nat option"
  | Str pystr
  | Bnd
  | Seq regex regex
  | Alt regex regex
  | Grp nat regex
  | Opt regex
  | Bos
  | Eos

text \<open>
  A match state is the current position and the spans of the groups closed so
  far. \<open>rmatch\<close> returns the states after the pattern in the order in which the
  backtracking matcher of \<open>re\<close> tries them, so the head of the list is the match
  \<open>re\<close> reports.
\<close>

type_synonym mstate = "nat \<times> (nat \<times> nat \<times> nat) list"

definition is_word :: "unicodedata \<Rightarrow> nat \<Rightarrow> bool" where
  "is_word U c \<longleftrightarrow> isalnum U c \<or> c = 95"

definition word_at :: "unicodedata \<Rightarrow> pystr \<Rightarrow> nat \<Rightarrow> bool" where
  "word_at U s i \<longleftrightarrow> i < length s \<and> is_word U (s ! i)"

definition boundary :: "unicodedata \<Rightarrow> pystr \<Rightarrow> nat \<Rightarrow> bool" where
  "boundary U s i \<longleftrightarrow> ((0 < i \<and> word_at U s (i - 1)) \<noteq> word_at U s i)"

definition run :: "unicodedata \<Rightarrow> cset \<Rightarrow> nat option \<Rightarrow> pystr \<Rightarrow> nat \<Rightarrow> nat" where
  "run U cs hi s i =
     (let n = length (takeWhile (in_cset U cs) (drop i s))
      in case hi of None \<Rightarrow> n | Some h \<Rightarrow> min n h)"

fun rmatch :: "regex \<Rightarrow> unicodedata \<Rightarrow> pystr \<Rightarrow> mstate \<Rightarrow> mstate list" where
  "rmatch (Chr cs) U s (i, g) =
     (if i < length s \<and> in_cset U cs (s ! i) then [(i + 1, g)] else [])"
| "rmatch (Rep cs lo hi) U s (i, g) =
     map (\<lambda>k. (i + k, g)) (rev [lo ..< Suc (run U cs hi s i)])"
| "rmatch (Str w) U s (i, g) =
     (if take (length w) (drop i s) = w then [(i + length w, g)] else [])"
| "rmatch Bnd U s (i, g) = (if boundary U s i then [(i, g)] else [])"
| "rmatch (Seq r1 r2) U s st =
     concat (map (\<lambda>st'. rmatch r2 U s st') (rmatch r1 U s st))"
| "rmatch (Alt r1 r2) U s st = rmatch r1 U s st @ rmatch r2 U s st"
| "rmatch (Grp n r) U s (i, g) =
     map (\<lambda>(j, g'). (j, (n, i, j) # g')) (rmatch r U s (i, g))"
| "rmatch (Opt r) U s st = rmatch r U s st @ [st]"
| "rmatch Bos U s (i, g) = (if i = 0 then [(i, g)] else [])"
| "rmatch Eos U s (i, g) =
     (if i = length s \<or> (Suc i = length s \<and> s ! i = 10) then [(i, g)] else [])"

text \<open>
  A match object: its span and the spans of its groups. \<open>group m s n\<close> is
  \<open>m.group(n)\<close> for a group that exists in the pattern: \<open>None\<close> when the group
  took no part in the match.
\<close>

record match =
  m_start :: nat
  m_end :: nat
  m_groups :: "(nat \<times> nat \<times> nat) list"

definition group0 :: "match \<Rightarrow> pystr \<Rightarrow> pystr" where
  "group0 m s = take (m_end m - m_start m) (drop (m_start m) s)"

definition group :: "match \<Rightarrow> pystr \<Rightarrow> nat \<Rightarrow> pystr option" where
  "group m s n =
     (case map_of (m_groups m) n of
        None \<Rightarrow> None
      | Some (a, b) \<Rightarrow> Some (take (b - a) (drop a s)))"

definition match_at :: "regex \<Rightarrow> unicodedata \<Rightarrow> pystr \<Rightarrow> nat \<Rightarrow> match option" where
  "match_at r U s i =
     (case rmatch r U s (i, []) of
        [] \<Rightarrow> None
      | (j, g) # _ \<Rightarrow> Some \<lparr>m_start = i, m_end = j, m_groups = g\<rparr>)"

text \<open>
  \<open>search_from r U s n i\<close> scans the \<open>n\<close> start positions \<open>i, i + 1, ...\<close> and
  returns the leftmost match. \<open>re.search\<close> scans every position of the string,
  the end included.
\<close>

fun search_from :: "regex \<Rightarrow> unicodedata \<Rightarrow> pystr \<Rightarrow> nat \<Rightarrow> nat \<Rightarrow> match option" where
  "search_from r U s 0 i = None"
| "search_from r U s (Suc n) i =
     (case match_at r U s i of
        Some m \<Rightarrow> Some m
      | None \<Rightarrow> search_from r U s n (Suc i))"

definition re_search :: "regex \<Rightarrow> unicodedata \<Rightarrow> pystr \<Rightarrow> match option" where
  "re_search r U s = search_from r U s (Suc (length s)) 0"

definition re_found :: "regex \<Rightarrow> unicodedata \<Rightarrow> pystr \<Rightarrow> bool" where
  "re_found r U s \<longleftrightarrow> re_search r U s \<noteq> None"

text \<open>
  \<open>re.sub(r"[...]+", "", s)\<close> and \<open>re.sub(r"\D", "", s)\<close> delete every character of
  a class: what is left are the characters outside it, in order.
\<close>

definition delete_chars :: "(nat \<Rightarrow> bool) \<Rightarrow> pystr \<Rightarrow> pystr" where
  "delete_chars P s = filter (\<lambda>c. \<not> P c) s"

text \<open>\<open>wb r\<close> is \<open>\br\b\<close>.\<close>

definition wb :: "regex \<Rightarrow> regex" where
  "wb r = Seq Bnd (Seq r Bnd)"

section \<open>Greetings (\<open>detect_greeting\<close>, fastapp.py 285-302)\<close>

text \<open>
  The class deleted from the text is \<open>!\<close>, \<open>.\<close>, \<open>,\<close>, U+1F642, U+1F64F, U+2728,
  U+2B50 and the variation selector U+FE0F.
\<close>

definition greeting_punct :: "nat \<Rightarrow> bool" where
  "greeting_punct c \<longleftrightarrow> c \<in> set [33, 46, 44, 128578, 128591, 10024, 11088, 65039]"

text \<open>\<open>good\s*X\<close> or \<open>U+0936 U+0941 U+092D \s* Y\<close>, each between word boundaries.\<close>

definition good_pattern :: "pystr \<Rightarrow> pystr \<Rightarrow> regex" where
  "good_pattern en mr =
     Alt (wb (Seq (Str (str ''good'')) (Seq (Rep Space 0 None) (Str en))))
         (wb (Seq (Str [2358, 2369, 2349]) (Seq (Rep Space 0 None) (Str mr))))"

definition hello_pattern :: regex where
  "hello_pattern =
     Alt (wb (Str (str ''hello'')))
    (Alt (wb (Seq (Str (str ''he'')) (Rep (Lit 121) 1 None)))
    (Alt (wb (Seq (Str (str ''hi'')) (Rep (Lit 105) 1 None)))
    (Alt (wb (Str (str ''hi'')))
    (Alt (wb (Str [2344, 2350, 2360, 2381, 2340, 2375]))
    (Alt (wb (Str [2344, 2350, 2360, 2381, 2325, 2366, 2352]))
    (Alt (wb (Str [2361, 2373, 2354, 2379]))
    (Alt (wb (Str [2361, 2375, 2354, 2379]))
         (wb (Str [2361, 2366, 2351])))))))))"

definition greeting_patterns :: "(regex \<times> pystr) list" where
  "greeting_patterns =
     [(good_pattern (str ''morning'') [2360, 2325, 2366, 2355], str ''good_morning''),
      (good_pattern (str ''afternoon'') [2342, 2369, 2346, 2366, 2352], str ''good_afternoon''),
      (good_pattern (str ''evening'')
         [2360, 2306, 2343, 2381, 2351, 2366, 2325, 2366, 2355], str ''good_evening''),
      (hello_pattern, str ''hello''),
      (good_pattern (str ''night'') [2352, 2366, 2340, 2381, 2352, 2368], str ''good_night'')]"

text \<open>The loop over the patterns: the first one found in the text decides.\<close>

fun first_found :: "(regex \<times> pystr) list \<Rightarrow> unicodedata \<Rightarrow> pystr \<Rightarrow> bool \<times> pystr" where
  "first_found [] U t = (False, [])"
| "first_found ((r, key) # ps) U t =
     (if re_found r U t then (True, key) else first_found ps U t)"

definition detect_greeting :: "unicodedata \<Rightarrow> pystr \<Rightarrow> bool \<times> pystr" where
  "detect_greeting U text =
     (let t = lower U (strip U text);
          t = delete_chars greeting_punct t
      in first_found greeting_patterns U t)"

section \<open>Yes and no (\<open>detect_yes_no_response\<close>, fastapp.py 420-433)\<close>

text \<open>
  The Marathi tokens are U+0939 U+094B U+092F and U+0939 U+094B for yes,
  U+0928 U+093E U+0939 U+0940 and U+0928 U+093E for no.
\<close>

definition yes_patterns_en :: "regex list" where
  "yes_patterns_en =
     [wb (Str (str ''yes'')), wb (Str (str ''y'')), wb (Str (str ''yeah'')),
      wb (Str (str ''yep''))]"

definition no_patterns_en :: "regex list" where
  "no_patterns_en = [wb (Str (str ''no'')), wb (Str (str ''n'')), wb (Str (str ''nope''))]"

definition yes_patterns_mr :: "regex list" where
  "yes_patterns_mr = [wb (Str [2361, 2379, 2351]), wb (Str [2361, 2379])]"

definition no_patterns_mr :: "regex list" where
  "no_patterns_mr = [wb (Str [2344, 2366, 2361, 2368]), wb (Str [2344, 2366])]"

text \<open>The \<open>language\<close> argument is a Python string, of any value.\<close>

definition detect_yes_no_response :: "unicodedata \<Rightarrow> pystr \<Rightarrow> pystr \<Rightarrow> pystr" where
  "detect_yes_no_response U text language =
     (let text = lower U (strip U text)
      in if list_ex (\<lambda>pattern. re_found pattern U text) (yes_patterns_en @ yes_patterns_mr)
         then str ''yes''
         else if list_ex (\<lambda>pattern. re_found pattern U text) (no_patterns_en @ no_patterns_mr)
         then str ''no''
         else str ''unknown'')"

section \<open>Identifiers (fastapp.py 304-382)\<close>

text \<open>
  Exceptions the modelled code can raise: three of the interpreter, and one for
  any failure of the database driver.
\<close>

datatype exn = IndexError | KeyError | ValueError | StoreError

text \<open>
  The ticket patterns are compiled with \<open>re.IGNORECASE\<close>. On Python strings that
  flag lets \<open>T\<close> match \<open>T\<close> and \<open>t\<close>; \<open>K\<close> match \<open>K\<close>, \<open>k\<close> and the Kelvin sign
  U+212A; and \<open>[a-zA-Z0-9]\<close> match the ASCII letters and digits and the four letters
  U+0130, U+0131, U+017F, U+212A, whose case mappings are ASCII letters.
\<close>

definition alnum_ci :: cset where
  "alnum_ci = AnyOf [Rng 97 122, Rng 65 90, Rng 48 57, Lit 304, Lit 305, Lit 383, Lit 8490]"

definition tkt_ci :: regex where
  "tkt_ci =
     Seq (Chr (AnyOf [Lit 84, Lit 116]))
    (Seq (Chr (AnyOf [Lit 75, Lit 107, Lit 8490]))
         (Chr (AnyOf [Lit 84, Lit 116])))"

definition ticket_patterns :: "regex list" where
  "ticket_patterns =
     [Seq Bnd (Seq (Grp 1 (Seq tkt_ci (Seq (Chr (Lit 45)) (Rep alnum_ci 1 None)))) Bnd),
      Seq Bnd (Seq (Grp 1 (Seq tkt_ci (Rep alnum_ci 1 None))) Bnd),
      Seq Bnd (Seq (Grp 1 (Rep (Rng 48 57) 6 None)) Bnd)]"

text \<open>
  \<open>detect_ticket_id\<close>: group 1 of the first pattern that is found. Group 1 spans
  the whole of each pattern, so it always takes part in a match.
\<close>

fun first_group1 :: "regex list \<Rightarrow> unicodedata \<Rightarrow> pystr \<Rightarrow> pystr option" where
  "first_group1 [] U text = None"
| "first_group1 (pattern # ps) U text =
     (case re_search pattern U text of
        Some m \<Rightarrow> group m text 1
      | None \<Rightarrow> first_group1 ps U text)"

definition detect_ticket_id :: "unicodedata \<Rightarrow> pystr \<Rightarrow> pystr option" where
  "detect_ticket_id U text = first_group1 ticket_patterns U text"

definition valid_patterns :: "regex list" where
  "valid_patterns =
     [Seq Bos (Seq tkt_ci (Seq (Chr (Lit 45)) (Seq (Rep alnum_ci 6 None) Eos))),
      Seq Bos (Seq tkt_ci (Seq (Rep alnum_ci 6 None) Eos)),
      Seq Bos (Seq (Rep (Rng 48 57) 6 None) Eos)]"

text \<open>\<open>re.match\<close> tries the pattern at position 0 only.\<close>

definition re_match :: "regex \<Rightarrow> unicodedata \<Rightarrow> pystr \<Rightarrow> match option" where
  "re_match r U s = match_at r U s 0"

definition validate_ticket_id_format :: "unicodedata \<Rightarrow> pystr \<Rightarrow> bool" where
  "validate_ticket_id_format U ticket_id =
     list_ex (\<lambda>pattern. re_match pattern U (strip U ticket_id) \<noteq> None) valid_patterns"

text \<open>
  \<open>re.finditer\<close>: the matches from left to right, each search starting where the
  previous match ended (one further after an empty match). The first argument
  bounds the number of matches; a string of length \<open>n\<close> has at most \<open>n + 1\<close>.
\<close>

fun finditer_from :: "nat \<Rightarrow> regex \<Rightarrow> unicodedata \<Rightarrow> pystr \<Rightarrow> nat \<Rightarrow> match list" where
  "finditer_from 0 r U s i = []"
| "finditer_from (Suc n) r U s i =
     (case search_from r U s (Suc (length s) - i) i of
        None \<Rightarrow> []
      | Some m \<Rightarrow>
          m # finditer_from n r U s
                (if m_start m < m_end m then m_end m else Suc (m_end m)))"

definition finditer :: "regex \<Rightarrow> unicodedata \<Rightarrow> pystr \<Rightarrow> match list" where
  "finditer r U s = finditer_from (Suc (length s)) r U s 0"

text \<open>
  \<open>m.group(n)\<close> on a pattern with \<open>k\<close> groups raises IndexError ("no such group")
  when \<open>n\<close> exceeds \<open>k\<close>.
\<close>

definition py_group :: "nat \<Rightarrow> match \<Rightarrow> pystr \<Rightarrow> nat \<Rightarrow> exn + pystr option" where
  "py_group k m s n = (if k < n then Inl IndexError else Inr (group m s n))"

text \<open>Truth value of an optional string: neither \<open>None\<close> nor empty.\<close>

definition truthy :: "pystr option \<Rightarrow> bool" where
  "truthy x \<longleftrightarrow> (case x of None \<Rightarrow> False | Some s \<Rightarrow> s \<noteq> [])"

text \<open>
  The three mobile patterns with the number of groups each one has:
  \<open>\b(\+91[\s-]?)?([6-9]\d{9})\b\<close> has two, \<open>\b([6-9]\d{9})\b\<close> and
  \<open>\b(0\d{10})\b\<close> have one.
\<close>

definition mobile_patterns :: "(regex \<times> nat) list" where
  "mobile_patterns =
     [(Seq Bnd
        (Seq (Opt (Grp 1 (Seq (Str (str ''+91'')) (Rep (AnyOf [Space, Lit 45]) 0 (Some 1)))))
        (Seq (Grp 2 (Seq (Chr (Rng 54 57)) (Rep Digit 9 (Some 9)))) Bnd)), 2),
      (Seq Bnd (Seq (Grp 1 (Seq (Chr (Rng 54 57)) (Rep Digit 9 (Some 9)))) Bnd), 1),
      (Seq Bnd (Seq (Grp 1 (Seq (Chr (Lit 48)) (Rep Digit 10 (Some 10)))) Bnd), 1)]"

text \<open>
  The body of the inner loop (fastapp.py 342-350) for one match: the number the
  three-way branch selects, or the exception a \<open>group\<close> call raises.
  \<open>match.group(1) and match.group(2)\<close> evaluates \<open>group(2)\<close> only when \<open>group(1)\<close>
  is true.
\<close>

definition select_mobile :: "nat \<Rightarrow> match \<Rightarrow> pystr \<Rightarrow> exn + pystr" where
  "select_mobile k m s =
     (case py_group k m s 1 of
        Inl e \<Rightarrow> Inl e
      | Inr g1 \<Rightarrow>
          if truthy g1 then
            (case py_group k m s 2 of
               Inl e \<Rightarrow> Inl e
             | Inr g2 \<Rightarrow> if truthy g2 then Inr (the g2) else Inr (the g1))
          else Inr (tl (group0 m s)))"

definition in_6789 :: "nat \<Rightarrow> bool" where
  "in_6789 c \<longleftrightarrow> c \<in> set (str ''6789'')"

text \<open>The inner loop over the matches of one pattern: \<open>Inr None\<close> when it runs out.\<close>

fun scan_matches :: "nat \<Rightarrow> match list \<Rightarrow> pystr \<Rightarrow> exn + pystr option" where
  "scan_matches k [] s = Inr None"
| "scan_matches k (m # ms) s =
     (case select_mobile k m s of
        Inl e \<Rightarrow> Inl e
      | Inr mobile \<Rightarrow>
          if length mobile = 10 \<and> in_6789 (hd mobile) then Inr (Some mobile)
          else scan_matches k ms s)"

text \<open>The outer loop over the patterns.\<close>

fun scan_patterns :: "(regex \<times> nat) list \<Rightarrow> unicodedata \<Rightarrow> pystr \<Rightarrow> exn + pystr option" where
  "scan_patterns [] U s = Inr None"
| "scan_patterns ((pattern, k) # ps) U s =
     (case scan_matches k (finditer pattern U s) s of
        Inl e \<Rightarrow> Inl e
      | Inr (Some mobile) \<Rightarrow> Inr (Some mobile)
      | Inr None \<Rightarrow> scan_patterns ps U s)"

text \<open>\<open>re.sub(r'[^\d+\s]', '', text)\<close> keeps the digits, \<open>+\<close> and white space.\<close>

definition detect_mobile_number :: "unicodedata \<Rightarrow> pystr \<Rightarrow> exn + pystr option" where
  "detect_mobile_number U text =
     (let clean_text = delete_chars (\<lambda>c. \<not> (isdecimal U c \<or> c = 43 \<or> isspace U c)) text
      in scan_patterns mobile_patterns U clean_text)"

text \<open>\<open>re.sub(r'\D', '', mobile_number)\<close>: the digits of the string, in order.\<close>

definition digits_only :: "unicodedata \<Rightarrow> pystr \<Rightarrow> pystr" where
  "digits_only U mobile_number = delete_chars (\<lambda>c. \<not> isdecimal U c) mobile_number"

text \<open>\<open>digits_only[i] in '6789'\<close> is read only after the length test.\<close>

definition validate_mobile_number_format :: "unicodedata \<Rightarrow> pystr \<Rightarrow> bool" where
  "validate_mobile_number_format U mobile_number =
     (let d = digits_only U mobile_number
      in if length d = 10 \<and> in_6789 (d ! 0) then True
         else if length d = 12 \<and> take 2 d = str ''91'' \<and> in_6789 (d ! 2) then True
         else if length d = 11 \<and> take 1 d = str ''0'' \<and> in_6789 (d ! 1) then True
         else False)"

text \<open>
  \<open>detect_ticket_id_or_mobile\<close> returns the pair (identifier, type), both \<open>None\<close>
  when nothing is detected. An IndexError of \<open>detect_mobile_number\<close> passes
  through: nothing here catches it.
\<close>

definition detect_ticket_id_or_mobile ::
    "unicodedata \<Rightarrow> pystr \<Rightarrow> exn + (pystr option \<times> pystr option)" where
  "detect_ticket_id_or_mobile U text =
     (let ticket_id = detect_ticket_id U text
      in if truthy ticket_id \<and> validate_ticket_id_format U (the ticket_id)
         then Inr (ticket_id, Some (str ''ticket_id''))
         else case detect_mobile_number U text of
                Inl e \<Rightarrow> Inl e
              | Inr mobile_number \<Rightarrow>
                  if truthy mobile_number
                     \<and> validate_mobile_number_format U (the mobile_number)
                  then Inr (mobile_number, Some (str ''mobile_number''))
                  else Inr (None, None))"

section \<open>Language resources (fastapp.py 143-196)\<close>

text \<open>
  \<open>SUPPORTED_LANGUAGES\<close> is \<open>["en", "mr"]\<close>. The endpoint rejects every other
  language before the dialogue engine runs, and the two dictionaries below have
  exactly these two keys, so the language of the engine is a two-valued type.
\<close>

datatype language = En | Mr

fun lang_code :: "language \<Rightarrow> pystr" where
  "lang_code En = str ''en''"
| "lang_code Mr = str ''mr''"

definition language_of :: "pystr \<Rightarrow> language option" where
  "language_of s =
     (if s = str ''en'' then Some En else if s = str ''mr'' then Some Mr else None)"

definition SUPPORTED_LANGUAGES :: "pystr list" where
  "SUPPORTED_LANGUAGES = [str ''en'', str ''mr'']"

text \<open>\<open>RATING_LABELS[language]\<close>: a dictionary with the keys 1 to 5.\<close>

fun RATING_LABELS :: "language \<Rightarrow> int \<Rightarrow> pystr option" where
  "RATING_LABELS En r =
     map_of
      [(1, str ''Poor''),
       (2, str ''Fair''),
       (3, str ''Good''),
       (4, str ''Very Good''),
       (5, str ''Excellent'')] r"
| "RATING_LABELS Mr r =
     map_of
      [(1, [2326, 2352, 2366, 2348]),
       (2, [2360, 2366, 2350, 2366, 2344, 2381, 2351]),
       (3, [2330, 2366, 2306, 2327, 2354, 2375]),
       (4, [2326, 2370, 2346, 32, 2330, 2366, 2306, 2327, 2354, 2375]),
       (5, [2313, 2340, 2381, 2325, 2371, 2359, 2381, 2335])] r"

text \<open>
  \<open>MAHA_AASTHA_KNOWLEDGE_BASE[language][key]\<close>. The nested entries
  \<open>options\<close> and \<open>yes_response\<close> are flattened: \<open>options_yes\<close> is
  \<open>["options"]["yes"]\<close>, \<open>yes_response_intro\<close> is \<open>["yes_response"]["intro"]\<close>.
\<close>

datatype kb_key =
    welcome_message
  | initial_question
  | check_existing_question
  | status_check_question
  | ticket_id_prompt
  | feedback_question
  | rating_question
  | rating_request
  | invalid_rating
  | rating_thank_you
  | ticket_not_found
  | database_error
  | invalid_ticket_id
  | options_yes
  | options_no
  | yes_response_intro
  | yes_response_link
  | no_response
  | help_text
  | track_ticket_help

definition KB_en :: "kb_key \<Rightarrow> pystr" where
  "KB_en key =
     (case key of
        welcome_message \<Rightarrow>
          str ''Welcome to Maha Aastha Grievance Redressal System AI-ChatBot.''
      | initial_question \<Rightarrow>
          str ''Would you like to register a Ticket on the Maha Aastha Grievance Redressal System?''
      | check_existing_question \<Rightarrow>
          str ''Has a Ticket already been registered on the Maha Aastha Grievance Redressal System?''
      | status_check_question \<Rightarrow>
          str ''Would you like to check the status of the ticket which you have registered on the Maha Aastha Grievance Redressal System?''
      | ticket_id_prompt \<Rightarrow>
          str ''Please enter your Ticket ID (For example: '' @ [34] @ str ''TKT-12345678''
          @ [34, 41]
      | feedback_question \<Rightarrow>
          str ''Would you like to provide feedback regarding the resolution of your ticket addressed through the Maha Aastha Grievance Redressal System?''
      | rating_question \<Rightarrow>
          str ''Please rate your experience with the Maha Aastha Grievance Redressal System:''
      | rating_request \<Rightarrow>
          str ''Rate from 1 (Poor) to 5 (Excellent)''
      | invalid_rating \<Rightarrow>
          str ''The information you have entered is invalid. Please try again.''
      | rating_thank_you \<Rightarrow>
          str ''Thank you for your feedback. Your rating has been recorded.''
      | ticket_not_found \<Rightarrow>
          str ''Sorry, no ticket found with the provided ID. Please check your Ticket ID and try again.''
      | database_error \<Rightarrow>
          str ''Unable to fetch ticket information at the moment. Please try again later.''
      | invalid_ticket_id \<Rightarrow>
          str ''Please provide a valid Ticket ID in the correct format (For example: ''
          @ [34] @ str ''TKT-12345678'' @ [34, 41]
      | options_yes \<Rightarrow>
          str ''YES''
      | options_no \<Rightarrow>
          str ''NO''
      | yes_response_intro \<Rightarrow>
          str ''You can register your Ticket on the Maha Aastha Grievance Redressal System through below link:''
      | yes_response_link \<Rightarrow>
          str ''#grievance''
      | no_response \<Rightarrow>
          str ''Thank you for using the Maha Aastha Grievance Redressal System.''
      | help_text \<Rightarrow>
          str ''Please type '' @ [39] @ str ''YES'' @ [39] @ str '' or '' @ [39]
          @ str ''NO'' @ [39] @ str '' to proceed with your query.''
      | track_ticket_help \<Rightarrow>
          str ''You can also track your ticket status at: #view-ticket'')"

definition KB_mr :: "kb_key \<Rightarrow> pystr" where
  "KB_mr key =
     (case key of
        welcome_message \<Rightarrow>
          [2344, 2350, 2360, 2381, 2325, 2366, 2352, 44, 32, 2350, 2361, 2366, 32, 2310,
          2360, 2381, 2341, 2366, 32, 2340, 2325, 2381, 2352, 2366, 2352, 32, 2344, 2367,
          2357, 2366, 2352, 2339, 32, 2346, 2381, 2352, 2339, 2366, 2354, 2368, 32, 2319,
          2310, 2351, 45, 2330, 2373, 2335, 2348, 2377, 2335, 2350, 2343, 2381, 2351, 2375,
          32, 2310, 2346, 2354, 2375, 32, 2360, 2381, 2357, 2366, 2327, 2340, 32, 2310,
          2361, 2375, 46]
      | initial_question \<Rightarrow>
          [2350, 2361, 2366, 32, 2310, 2360, 2381, 2341, 2366, 32, 2340, 2325, 2381, 2352,
          2366, 2352, 32, 2344, 2367, 2357, 2366, 2352, 2339, 32, 2346, 2381, 2352, 2339,
          2366, 2354, 2368, 2350, 2343, 2381, 2351, 2375, 32, 2310, 2346, 2339, 32, 2340,
          2367, 2325, 2368, 2335, 32, 2344, 2379, 2306, 2342, 2357, 2370, 32, 2311, 2330,
          2381, 2331, 2367, 2340, 2366, 32, 2325, 2366, 63]
      | check_existing_question \<Rightarrow>
          [2350, 2361, 2366, 32, 2310, 2360, 2381, 2341, 2366, 32, 2340, 2325, 2381, 2352,
          2366, 2352, 32, 2344, 2367, 2357, 2366, 2352, 2339, 32, 2346, 2381, 2352, 2339,
          2366, 2354, 2368, 2350, 2343, 2381, 2351, 2375, 32, 2344, 2379, 2306, 2342, 2357,
          2367, 2339, 2381, 2351, 2366, 2340, 32, 2310, 2354, 2375, 2354, 2368, 32, 2340,
          2367, 2325, 2368, 2335, 32, 2310, 2361, 2375, 32, 2325, 2366, 63]
      | status_check_question \<Rightarrow>
          [2310, 2346, 2339, 32, 2350, 2361, 2366, 32, 2310, 2360, 2381, 2341, 2366, 32,
          2340, 2325, 2381, 2352, 2366, 2352, 32, 2344, 2367, 2357, 2366, 2352, 2339, 32,
          2346, 2381, 2352, 2339, 2366, 2354, 2368, 2350, 2343, 2381, 2351, 2375, 32, 2344,
          2379, 2306, 2342, 2357, 2354, 2375, 2354, 2381, 2351, 2366, 32, 2340, 2367, 2325,
          2368, 2335, 2330, 2368, 32, 2360, 2381, 2341, 2367, 2340, 2368, 32, 2340, 2346,
          2366, 2360, 2370, 32, 2311, 2330, 2381, 2331, 2367, 2340, 2366, 32, 2325, 2366,
          63]
      | ticket_id_prompt \<Rightarrow>
          [2325, 2371, 2346, 2351, 2366, 32, 2310, 2346, 2354, 2366, 32, 2340, 2367, 2325,
          2368, 2335, 32, 2325, 2381, 2352, 2350, 2366, 2306, 2325, 32, 2346, 2381, 2352,
          2357, 2367, 2359, 2381, 2335, 32, 2325, 2352, 2366, 32, 40, 2313, 2342, 2366,
          2361, 2352, 2339, 2366, 2352, 2381, 2341, 58, 32, 34] @ str ''TKT-12345678''
          @ [34, 41]
      | feedback_question \<Rightarrow>
          [2350, 2361, 2366, 32, 2310, 2360, 2381, 2341, 2366, 32, 2340, 2325, 2381, 2352,
          2366, 2352, 32, 2344, 2367, 2357, 2366, 2352, 2339, 32, 2346, 2381, 2352, 2339,
          2366, 2354, 2368, 2342, 2381, 2357, 2366, 2352, 2375, 32, 2360, 2379, 2337, 2357,
          2367, 2339, 2381, 2351, 2366, 2340, 32, 2310, 2354, 2375, 2354, 2381, 2351, 2366,
          32, 2310, 2346, 2354, 2381, 2351, 2366, 32, 2340, 2367, 2325, 2368, 2335, 2330,
          2381, 2351, 2366, 32, 2344, 2367, 2352, 2366, 2325, 2352, 2339, 2366, 2348, 2366,
          2348, 2340, 32, 2309, 2349, 2367, 2346, 2381, 2352, 2366, 2351, 32, 2342, 2381,
          2351, 2366, 2351, 2354, 2366, 32, 2311, 2330, 2381, 2331, 2367, 2340, 2366, 32,
          2325, 2366, 63]
      | rating_question \<Rightarrow>
          [2325, 2371, 2346, 2351, 2366, 32, 2350, 2361, 2366, 32, 2310, 2360, 2381, 2341,
          2366, 32, 2340, 2325, 2381, 2352, 2366, 2352, 32, 2344, 2367, 2357, 2366, 2352,
          2339, 32, 2346, 2381, 2352, 2339, 2366, 2354, 2368, 2330, 2381, 2351, 2366, 32,
          2309, 2344, 2369, 2349, 2357, 2366, 2354, 2366, 32, 2352, 2375, 2335, 2367, 2306,
          2327, 32, 2342, 2381, 2351, 2366, 58]
      | rating_request \<Rightarrow>
          [2407, 32, 40, 2326, 2352, 2366, 2348, 41, 32, 2340, 2375, 32, 2411, 32, 40, 2313,
          2340, 2381, 2325, 2371, 2359, 2381, 2335, 41, 32, 2346, 2352, 2381, 2351, 2306,
          2340, 32, 2352, 2375, 2335, 2367, 2306, 2327, 32, 2342, 2381, 2351, 2366]
      | invalid_rating \<Rightarrow>
          [2310, 2346, 2339, 32, 2342, 2367, 2354, 2375, 2354, 2368, 32, 2350, 2366, 2361,
          2367, 2340, 2368, 32, 2309, 2357, 2376, 2343, 32, 2310, 2361, 2375, 46, 32, 2325,
          2371, 2346, 2351, 2366, 32, 2346, 2369, 2344, 2381, 2361, 2366, 32, 2346, 2381,
          2352, 2351, 2340, 2381, 2344, 32, 2325, 2352, 2366, 46]
      | rating_thank_you \<Rightarrow>
          [2310, 2346, 2354, 2381, 2351, 2366, 32, 2309, 2349, 2367, 2346, 2381, 2352, 2366,
          2351, 2366, 2348, 2342, 2381, 2342, 2354, 32, 2343, 2344, 2381, 2351, 2357, 2366,
          2342, 46, 32, 2310, 2346, 2354, 2375, 32, 2352, 2375, 2335, 2367, 2306, 2327, 32,
          2344, 2379, 2306, 2342, 2357, 2354, 2375, 32, 2327, 2375, 2354, 2375, 32, 2310,
          2361, 2375, 46]
      | ticket_not_found \<Rightarrow>
          [2350, 2366, 2347, 32, 2325, 2352, 2366, 44, 32, 2342, 2367, 2354, 2375, 2354,
          2381, 2351, 2366, 32, 2325, 2381, 2352, 2350, 2366, 2306, 2325, 2366, 2358, 2368,
          32, 2325, 2379, 2339, 2340, 2368, 2361, 2368, 32, 2340, 2367, 2325, 2368, 2335,
          32, 2310, 2338, 2355, 2354, 2368, 32, 2344, 2366, 2361, 2368, 46, 32, 2325, 2371,
          2346, 2351, 2366, 32, 2310, 2346, 2354, 2366, 32, 2340, 2367, 2325, 2368, 2335,
          32, 2325, 2381, 2352, 2350, 2366, 2306, 2325, 32, 2340, 2346, 2366, 2360, 2366,
          32, 2310, 2339, 2367, 32, 2346, 2369, 2344, 2381, 2361, 2366, 32, 2346, 2381,
          2352, 2351, 2340, 2381, 2344, 32, 2325, 2352, 2366, 46]
      | database_error \<Rightarrow>
          [2360, 2343, 2381, 2351, 2366, 32, 2340, 2367, 2325, 2368, 2335, 32, 2350, 2366,
          2361, 2367, 2340, 2368, 32, 2350, 2367, 2355, 2357, 2340, 2366, 32, 2351, 2375,
          2340, 32, 2344, 2366, 2361, 2368, 46, 32, 2325, 2371, 2346, 2351, 2366, 32, 2344,
          2306, 2340, 2352, 32, 2346, 2381, 2352, 2351, 2340, 2381, 2344, 32, 2325, 2352,
          2366, 46]
      | invalid_ticket_id \<Rightarrow>
          [2325, 2371, 2346, 2351, 2366, 32, 2351, 2379, 2327, 2381, 2351, 32, 2340, 2367,
          2325, 2368, 2335, 32, 2325, 2381, 2352, 2350, 2366, 2306, 2325, 32, 2346, 2381,
          2352, 2342, 2366, 2344, 32, 2325, 2352, 2366, 32, 40, 2313, 2342, 2366, 2361,
          2352, 2339, 2366, 2352, 2381, 2341, 58, 32, 34] @ str ''TKT-12345678'' @ [34, 41]
      | options_yes \<Rightarrow>
          [2361, 2379, 2351]
      | options_no \<Rightarrow>
          [2344, 2366, 2361, 2368]
      | yes_response_intro \<Rightarrow>
          [2310, 2346, 2339, 32, 2350, 2361, 2366, 32, 2310, 2360, 2381, 2341, 2366, 32,
          2340, 2325, 2381, 2352, 2366, 2352, 32, 2344, 2367, 2357, 2366, 2352, 2339, 32,
          2346, 2381, 2352, 2339, 2366, 2354, 2368, 2350, 2343, 2381, 2351, 2375, 32, 2310,
          2346, 2354, 2368, 32, 2340, 2367, 2325, 2368, 2335, 32, 2326, 2366, 2354, 2368,
          2354, 32, 2354, 2367, 2306, 2325, 2342, 2381, 2357, 2366, 2352, 2375, 32, 2344,
          2379, 2306, 2342, 2357, 2370, 32, 2358, 2325, 2340, 2366, 58]
      | yes_response_link \<Rightarrow>
          str ''#grievance''
      | no_response \<Rightarrow>
          [2350, 2361, 2366, 32, 2310, 2360, 2381, 2341, 2366, 32, 2340, 2325, 2381, 2352,
          2366, 2352, 32, 2344, 2367, 2357, 2366, 2352, 2339, 32, 2346, 2381, 2352, 2339,
          2366, 2354, 2368, 2330, 2366, 32, 2357, 2366, 2346, 2352, 32, 2325, 2375, 2354,
          2381, 2351, 2366, 2348, 2342, 2381, 2342, 2354, 32, 2310, 2346, 2354, 2375, 32,
          2343, 2344, 2381, 2351, 2357, 2366, 2342, 46]
      | help_text \<Rightarrow>
          [2325, 2371, 2346, 2351, 2366, 32, 39, 2361, 2379, 2351, 39, 32, 2325, 2367, 2306,
          2357, 2366, 32, 39, 2344, 2366, 2361, 2368, 39, 32, 2335, 2366, 2311, 2346, 32,
          2325, 2352, 2370, 2344, 32, 2310, 2346, 2354, 2381, 2351, 2366, 32, 2346, 2381,
          2352, 2358, 2381, 2344, 2366, 2360, 2361, 32, 2346, 2369, 2338, 2375, 32, 2332,
          2366, 46]
      | track_ticket_help \<Rightarrow>
          [2310, 2346, 2339, 32, 2310, 2346, 2354, 2381, 2351, 2366, 32, 2340, 2367, 2325,
          2368, 2335, 2330, 2368, 32, 2360, 2381, 2341, 2367, 2340, 2368, 32, 2351, 2375,
          2341, 2375, 32, 2342, 2375, 2326, 2368, 2354, 32, 2340, 2346, 2366, 2360, 2370,
          32, 2358, 2325, 2340, 2366] @ str '': #view-ticket'')"

fun MAHA_AASTHA_KNOWLEDGE_BASE :: "language \<Rightarrow> kb_key \<Rightarrow> pystr" where
  "MAHA_AASTHA_KNOWLEDGE_BASE En = KB_en"
| "MAHA_AASTHA_KNOWLEDGE_BASE Mr = KB_mr"

section \<open>Replies built from the resources (fastapp.py 399-418, 484-534)\<close>

text \<open>
  \<open>greeting_reply\<close>: \<open>replies.get(language, {}).get(key, replies["en"]["hello"])\<close>,
  where every entry is built on the welcome message of the given language.
\<close>

definition greeting_reply :: "language \<Rightarrow> pystr \<Rightarrow> pystr" where
  "greeting_reply language key =
     (case language of
        En \<Rightarrow>
          if key = str ''good_morning'' then str ''Good Morning! '' @ MAHA_AASTHA_KNOWLEDGE_BASE language welcome_message
          else if key = str ''good_afternoon'' then str ''Good Afternoon! ''
               @ MAHA_AASTHA_KNOWLEDGE_BASE language welcome_message
          else if key = str ''good_evening'' then str ''Good Evening! '' @ MAHA_AASTHA_KNOWLEDGE_BASE language welcome_message
          else if key = str ''good_night'' then str ''Good Night! '' @ MAHA_AASTHA_KNOWLEDGE_BASE language welcome_message
          else str ''Hello! '' @ MAHA_AASTHA_KNOWLEDGE_BASE language welcome_message
      | Mr \<Rightarrow>
          if key = str ''good_morning'' then
               [2358, 2369, 2349, 32, 2360, 2325, 2366, 2355, 33, 32]
               @ MAHA_AASTHA_KNOWLEDGE_BASE language welcome_message
          else if key = str ''good_afternoon'' then
               [2358, 2369, 2349, 32, 2342, 2369, 2346, 2366, 2352, 33, 32]
               @ MAHA_AASTHA_KNOWLEDGE_BASE language welcome_message
          else if key = str ''good_evening'' then
               [2358, 2369, 2349, 32, 2360, 2306, 2343, 2381, 2351, 2366, 2325, 2366, 2355,
               33, 32] @ MAHA_AASTHA_KNOWLEDGE_BASE language welcome_message
          else if key = str ''good_night'' then
               [2358, 2369, 2349, 32, 2352, 2366, 2340, 2381, 2352, 2368, 33, 32]
               @ MAHA_AASTHA_KNOWLEDGE_BASE language welcome_message
          else if key = str ''hello'' then MAHA_AASTHA_KNOWLEDGE_BASE language welcome_message
          else str ''Hello! '' @ MAHA_AASTHA_KNOWLEDGE_BASE language welcome_message)"

definition get_initial_response_with_status_option :: "language \<Rightarrow> pystr" where
  "get_initial_response_with_status_option language =
     (if language = Mr then
        MAHA_AASTHA_KNOWLEDGE_BASE language welcome_message @ [10, 2346, 2381, 2352, 2358,
        2381, 2344, 32, 2325, 2381, 2352, 46, 32, 2407, 58, 32]
        @ MAHA_AASTHA_KNOWLEDGE_BASE language initial_question @ [10, 2313, 2340, 2381,
        2340, 2352, 32, 2407, 32, 45, 32, 34]
        @ MAHA_AASTHA_KNOWLEDGE_BASE language options_yes @ [34, 10, 2313, 2340, 2381, 2340,
        2352, 32, 2408, 32, 45, 32, 34] @ MAHA_AASTHA_KNOWLEDGE_BASE language options_no
        @ [34, 10, 2346, 2381, 2352, 2358, 2381, 2344, 32, 2325, 2381, 2352, 46, 32, 2408,
        58, 32] @ MAHA_AASTHA_KNOWLEDGE_BASE language status_check_question @ [10, 2313,
        2340, 2381, 2340, 2352, 32, 45, 32, 34, 2360, 2381, 2341, 2367, 2340, 2368, 32,
        2340, 2346, 2366, 2360, 2366, 34, 32, 2325, 2367, 2306, 2357, 2366, 32, 2310, 2346,
        2354, 2366, 32, 2340, 2367, 2325, 2368, 2335, 32, 2325, 2381, 2352, 2350, 2366,
        2306, 2325, 32, 2335, 2366, 2311, 2346, 32, 2325, 2352, 2366, 10, 2313, 2342, 2366,
        2361, 2352, 2339] @ str '': TKT-12345678''
      else
        MAHA_AASTHA_KNOWLEDGE_BASE language welcome_message @ [10] @ str ''Question 1: ''
        @ MAHA_AASTHA_KNOWLEDGE_BASE language initial_question @ [10] @ str ''Answer 1: ''
        @ [34] @ MAHA_AASTHA_KNOWLEDGE_BASE language options_yes @ [34, 10]
        @ str ''Answer 2: '' @ [34] @ MAHA_AASTHA_KNOWLEDGE_BASE language options_no @ [34,
        10] @ str ''Question 2: ''
        @ MAHA_AASTHA_KNOWLEDGE_BASE language status_check_question @ [10]
        @ str ''Answer: Type '' @ [34] @ str ''Check Status'' @ [34]
        @ str '' or enter your Ticket ID'' @ [10] @ str ''Example: TKT-12345678'')"

definition get_feedback_question :: "language \<Rightarrow> pystr" where
  "get_feedback_question language =
     (if language = Mr then
        [2346, 2381, 2352, 2358, 2381, 2344, 32, 2325, 2381, 2352, 46, 32, 2408, 46, 2408,
        58, 32] @ MAHA_AASTHA_KNOWLEDGE_BASE language feedback_question @ [10, 2313, 2340,
        2381, 2340, 2352, 32, 2407, 32, 45, 32, 34]
        @ MAHA_AASTHA_KNOWLEDGE_BASE language options_yes @ [34, 10, 2313, 2340, 2381, 2340,
        2352, 32, 2408, 32, 45, 32, 34] @ MAHA_AASTHA_KNOWLEDGE_BASE language options_no
        @ [34]
      else
        str ''Question 2.2: '' @ MAHA_AASTHA_KNOWLEDGE_BASE language feedback_question
        @ [10] @ str ''Answer 1: '' @ [34] @ MAHA_AASTHA_KNOWLEDGE_BASE language options_yes
        @ [34, 10] @ str ''Answer 2: '' @ [34]
        @ MAHA_AASTHA_KNOWLEDGE_BASE language options_no @ [34])"

definition get_rating_request :: "language \<Rightarrow> pystr" where
  "get_rating_request language =
     (if language = Mr then
        MAHA_AASTHA_KNOWLEDGE_BASE language rating_question @ [10]
        @ MAHA_AASTHA_KNOWLEDGE_BASE language rating_request @ [10, 2407, 32, 45, 32]
        @ the (RATING_LABELS Mr 1) @ [10, 2408, 32, 45, 32] @ the (RATING_LABELS Mr 2)
        @ [10, 2409, 32, 45, 32] @ the (RATING_LABELS Mr 3) @ [10, 2410, 32, 45, 32]
        @ the (RATING_LABELS Mr 4) @ [10, 2411, 32, 45, 32] @ the (RATING_LABELS Mr 5)
      else
        MAHA_AASTHA_KNOWLEDGE_BASE language rating_question @ [10]
        @ MAHA_AASTHA_KNOWLEDGE_BASE language rating_request @ [10] @ str ''1 - ''
        @ the (RATING_LABELS En 1) @ [10] @ str ''2 - '' @ the (RATING_LABELS En 2) @ [10]
        @ str ''3 - '' @ the (RATING_LABELS En 3) @ [10] @ str ''4 - ''
        @ the (RATING_LABELS En 4) @ [10] @ str ''5 - '' @ the (RATING_LABELS En 5))"

section \<open>The status question (\<open>detect_exact_status_question\<close>, fastapp.py 384-397)\<close>

definition status_patterns :: "pystr list" where
  "status_patterns =
     [[2310, 2346, 2339, 32, 2350, 2361, 2366, 32, 2310, 2360, 2381, 2341, 2366, 32, 2340,
      2325, 2381, 2352, 2366, 2352, 32, 2344, 2367, 2357, 2366, 2352, 2339, 32, 2346, 2381,
      2352, 2339, 2366, 2354, 2368, 2350, 2343, 2381, 2351, 2375, 32, 2344, 2379, 2306,
      2342, 2357, 2354, 2375, 2354, 2381, 2351, 2366, 32, 2340, 2367, 2325, 2368, 2335,
      2330, 2368, 32, 2360, 2381, 2341, 2367, 2340, 2368, 32, 2340, 2346, 2366, 2360, 2370,
      32, 2311, 2330, 2381, 2331, 2367, 2340, 2366, 32, 2325, 2366],
      [2340, 2367, 2325, 2368, 2335, 2330, 2368, 32, 2360, 2381, 2341, 2367, 2340, 2368, 32,
      2340, 2346, 2366, 2360, 2370, 32, 2311, 2330, 2381, 2331, 2367, 2340, 2366, 32, 2325,
      2366],
      [2360, 2381, 2341, 2367, 2340, 2368, 32, 2340, 2346, 2366, 2360, 2370, 32, 2311, 2330,
      2381, 2331, 2367, 2340, 2366, 32, 2325, 2366],
      [2340, 2367, 2325, 2368, 2335, 2330, 2368, 32, 2360, 2381, 2341, 2367, 2340, 2368],
      [2360, 2381, 2341, 2367, 2340, 2368, 32, 2340, 2346, 2366, 2360, 2366]]"

text \<open>The English branch searches the lowered, stripped text; the other branch
  searches the text as given.\<close>

definition detect_exact_status_question :: "unicodedata \<Rightarrow> pystr \<Rightarrow> language \<Rightarrow> bool" where
  "detect_exact_status_question U text language =
     (let text_lower = strip U (lower U text)
      in if language = En then
           contains text_lower (str ''would you like to check the status of your ticket'')
           \<or> contains text_lower (str ''check status'')
         else list_ex (\<lambda>pattern. contains text pattern) status_patterns)"

section \<open>Ticket records and their display (fastapp.py 435-482)\<close>

text \<open>
  A row of \<open>public.grievancess\<close> as \<open>get_ticket_status\<close> selects it. The columns
  the chatbot reads are kept; a column that is NULL is \<open>None\<close>. The two
  timestamps are read through \<open>strftime("%d-%b-%Y")\<close> only, so a timestamp is a
  calendar date.
\<close>

datatype month = Jan | Feb | Mar | Apr | May | Jun | Jul | Aug | Sep | Oct | Nov | Dec

record date =
  year :: nat
  month :: month
  day :: nat

record ticket_row =
  ticket :: "pystr option"
  employee_name :: "pystr option"
  mobile_number :: "pystr option"
  office_name :: "pystr option"
  district_name :: "pystr option"
  issue_category :: "pystr option"
  subject :: "pystr option"
  status :: "pystr option"
  created_at :: "date option"
  updated_at :: "date option"

text \<open>Decimal digits of a natural number, as \<open>str(n)\<close> prints them.\<close>

fun decimal :: "nat \<Rightarrow> pystr" where
  "decimal n = (if n < 10 then [48 + n] else decimal (n div 10) @ [48 + n mod 10])"

declare decimal.simps [simp del]

fun month_abbr :: "month \<Rightarrow> pystr" where
  "month_abbr Jan = str ''Jan''" | "month_abbr Feb = str ''Feb''" | "month_abbr Mar = str ''Mar''"
| "month_abbr Apr = str ''Apr''" | "month_abbr May = str ''May''" | "month_abbr Jun = str ''Jun''"
| "month_abbr Jul = str ''Jul''" | "month_abbr Aug = str ''Aug''" | "month_abbr Sep = str ''Sep''"
| "month_abbr Oct = str ''Oct''" | "month_abbr Nov = str ''Nov''" | "month_abbr Dec = str ''Dec''"

text \<open>
  \<open>strftime("%d-%b-%Y")\<close> in the C locale: the day on two digits, the English
  month abbreviation, the year.
\<close>

definition strftime_d_b_Y :: "date \<Rightarrow> pystr" where
  "strftime_d_b_Y d =
     (if day d < 10 then str ''0'' else []) @ decimal (day d) @ str ''-'' @ month_abbr (month d)
     @ str ''-'' @ decimal (year d)"

text \<open>A value inside an f-string: \<open>None\<close> prints as the word None.\<close>

definition show_field :: "pystr option \<Rightarrow> pystr" where
  "show_field v = (case v of None \<Rightarrow> str ''None'' | Some s \<Rightarrow> s)"

text \<open>
  Every selected column is a key of the row dictionary, so \<open>.get(key, default)\<close>
  never falls back on its default: it returns the column, \<open>None\<close> included.
\<close>

definition format_simple_ticket_status :: "ticket_row option \<Rightarrow> language \<Rightarrow> pystr" where
  "format_simple_ticket_status row language =
     (case row of
        None \<Rightarrow>
          if language = En then str ''Ticket not found''
          else [2340, 2367, 2325, 2368, 2335, 32, 2310, 2338, 2355, 2354, 2375, 32, 2344,
               2366, 2361, 2368]
      | Some ticket_data \<Rightarrow>
          let created_date =
                (case created_at ticket_data of
                   Some d \<Rightarrow> strftime_d_b_Y d
                 | None \<Rightarrow> str ''Not available'');
              updated_date = map_option strftime_d_b_Y (updated_at ticket_data)
          in if language = En then
               str ''The current status of your Ticket is as follows:'' @ [10]
               @ str ''Ticket ID: '' @ show_field (ticket ticket_data) @ [10]
               @ str ''Status: '' @ show_field (status ticket_data) @ [10]
               @ str ''Created: '' @ created_date @ [10] @ str ''Employee Name: ''
               @ show_field (employee_name ticket_data) @ [10] @ str ''Category: ''
               @ show_field (issue_category ticket_data)
               @ (if truthy (district_name ticket_data)
                  then [10] @ str ''District: '' @ the (district_name ticket_data) else [])
               @ (if truthy (office_name ticket_data)
                  then [10] @ str ''Office: '' @ the (office_name ticket_data) else [])
               @ (if truthy (subject ticket_data)
                  then [10] @ str ''Subject: '' @ the (subject ticket_data) else [])
               @ (if truthy updated_date
                  then [10] @ str ''Last Updated: '' @ the updated_date else [])
             else
               [2310, 2346, 2354, 2381, 2351, 2366, 32, 2340, 2367, 2325, 2368, 2335, 2330,
               2368, 32, 2360, 2342, 2381, 2351, 2360, 2381, 2341, 2367, 2340, 2368, 32,
               2326, 2366, 2354, 2368, 2354, 2346, 2381, 2352, 2350, 2366, 2339, 2375, 32,
               2310, 2361, 2375, 58, 10, 2340, 2367, 2325, 2368, 2335, 32, 2325, 2381, 2352,
               2350, 2366, 2306, 2325, 58, 32] @ show_field (ticket ticket_data) @ [10,
               2360, 2381, 2341, 2367, 2340, 2368, 58, 32] @ show_field (status ticket_data)
               @ [10, 2342, 2366, 2326, 2354, 32, 2342, 2367, 2344, 2366, 2306, 2325, 58,
               32] @ created_date @ [10, 2325, 2352, 2381, 2350, 2330, 2366, 2352, 2368, 32,
               2344, 2366, 2357, 58, 32] @ show_field (employee_name ticket_data) @ [10,
               2358, 2381, 2352, 2375, 2339, 2368, 58, 32]
               @ show_field (issue_category ticket_data)
               @ (if truthy (district_name ticket_data)
                  then [10, 2332, 2367, 2354, 2381, 2361, 2366, 58, 32]
                       @ the (district_name ticket_data) else [])
               @ (if truthy (office_name ticket_data)
                  then [10, 2325, 2366, 2352, 2381, 2351, 2366, 2354, 2351, 58, 32]
                       @ the (office_name ticket_data) else [])
               @ (if truthy (subject ticket_data)
                  then [10, 2357, 2367, 2359, 2351, 58, 32] @ the (subject ticket_data) else [])
               @ (if truthy updated_date
                  then [10, 2358, 2375, 2357, 2335, 2330, 2366, 32, 2309, 2342, 2381, 2351,
                       2340, 2344, 58, 32] @ the updated_date else []))"


section \<open>The ticket store (database.py 262-305, 578-580)\<close>

text \<open>
  The connection pool and the database behind it are outside the repository. A
  pool is modelled by what \<open>pool.acquire()\<close> followed by
  \<open>connection.fetchrow(query, $1, $2)\<close> does for the query of
  \<open>get_ticket_status\<close>: it raises, or it returns the newest matching row, or
  \<open>None\<close>. \<open>pool = None\<close> is a manager whose pool was never initialised.
\<close>

type_synonym fetchrow = "pystr \<Rightarrow> pystr \<Rightarrow> exn + ticket_row option"

record DatabaseManager =
  pool :: "fetchrow option"

text \<open>\<open>status_map.get(current_status, current_status)\<close>.\<close>

definition status_map :: "(pystr \<times> pystr) list" where
  "status_map =
     [(str ''Open'', str ''Open''), (str ''In Progress'', str ''In Progress''),
      (str ''Resolved'', str ''Resolved''), (str ''Closed'', str ''Closed''),
      (str ''Pending'', str ''Pending'')]"

definition map_status :: "pystr option \<Rightarrow> pystr option" where
  "map_status current_status =
     (case current_status of
        None \<Rightarrow> None
      | Some s \<Rightarrow> (case map_of status_map s of Some t \<Rightarrow> Some t | None \<Rightarrow> Some s))"

text \<open>
  \<open>DatabaseManager.get_ticket_status\<close>. The result type has a place for an
  exception because the callers wrap the call in \<open>try\<close>; the method itself
  catches every exception and returns \<open>None\<close>.
\<close>

definition get_ticket_status ::
    "unicodedata \<Rightarrow> DatabaseManager \<Rightarrow> pystr \<Rightarrow> exn + ticket_row option" where
  "get_ticket_status U db_manager identifier =
     (case pool db_manager of
        None \<Rightarrow> Inr None
      | Some fetch \<Rightarrow>
          let identifier = strip U identifier
          in case fetch identifier (str ''%'' @ identifier @ str ''%'') of
               Inl e \<Rightarrow> Inr None
             | Inr None \<Rightarrow> Inr None
             | Inr (Some result) \<Rightarrow>
                 Inr (Some (result\<lparr>status := map_status (status result)\<rparr>)))"

section \<open>Process state\<close>

text \<open>
  The module-level stores of fastapp.py (lines 68-82). A stage is one of the
  eight strings the engine writes. \<open>lookups\<close> is not in the source: it records,
  in order, the identifiers handed to \<open>get_ticket_status\<close>, so that "no
  lookup happened" can be stated.
\<close>

datatype stage =
    Initial
  | Awaiting_response
  | Registration_info
  | Waiting_for_ticket_id
  | Status_shown
  | Feedback_question
  | Rating_request
  | Completed

record session_state =
  stage :: stage
  session_language :: language

typedecl posix_time

record chat_entry =
  user :: pystr
  assistant :: pystr
  chat_language :: pystr
  timestamp :: pystr
  chat_session_id :: pystr
  created :: posix_time

record system_status =
  total_queries :: nat
  successful_queries :: nat
  failed_queries :: nat
  last_error :: "exn option"

record rating_entry =
  r_timestamp :: pystr
  r_session_id :: pystr
  r_rating :: int
  r_Feedback :: pystr
  r_language :: pystr
  r_ticket_id :: pystr

record world =
  SYSTEM_STATUS :: system_status
  CHAT_HISTORY :: "pystr \<rightharpoonup> chat_entry list"
  USER_SESSION_STATE :: "pystr \<rightharpoonup> session_state"
  RATINGS_DATA :: "rating_entry list"
  lookups :: "pystr list"

text \<open>The stores when the process starts: no query counted, every store empty.\<close>

definition startup :: world where
  "startup =
     \<lparr>SYSTEM_STATUS =
        \<lparr>total_queries = 0, successful_queries = 0, failed_queries = 0, last_error = None\<rparr>,
      CHAT_HISTORY = Map.empty, USER_SESSION_STATE = Map.empty, RATINGS_DATA = [],
      lookups = []\<rparr>"

definition lookup_status ::
    "unicodedata \<Rightarrow> DatabaseManager \<Rightarrow> pystr \<Rightarrow> world \<Rightarrow> (exn + ticket_row option) \<times> world" where
  "lookup_status U db_manager identifier w =
     (get_ticket_status U db_manager identifier, w\<lparr>lookups := lookups w @ [identifier]\<rparr>)"

text \<open>
  Lines 570-572: a session id not yet in the store gets a state in stage
  \<open>initial\<close>; \<open>session_state\<close> is then the entry of the store.
\<close>

definition ensure_session :: "pystr \<Rightarrow> language \<Rightarrow> world \<Rightarrow> world" where
  "ensure_session session_id language w =
     (case USER_SESSION_STATE w session_id of
        None \<Rightarrow>
          w\<lparr>USER_SESSION_STATE :=
              (USER_SESSION_STATE w)
                (session_id \<mapsto> \<lparr>stage = Initial, session_language = language\<rparr>)\<rparr>
      | Some _ \<Rightarrow> w)"

text \<open>\<open>session_state.get("stage")\<close> and \<open>session_state["stage"] = s\<close>.\<close>

definition get_stage :: "world \<Rightarrow> pystr \<Rightarrow> stage option" where
  "get_stage w session_id = map_option stage (USER_SESSION_STATE w session_id)"

definition set_stage :: "pystr \<Rightarrow> stage \<Rightarrow> world \<Rightarrow> world" where
  "set_stage session_id s w =
     w\<lparr>USER_SESSION_STATE :=
         (USER_SESSION_STATE w)
           (session_id := map_option (\<lambda>st. st\<lparr>stage := s\<rparr>) (USER_SESSION_STATE w session_id))\<rparr>"

section \<open>The dialogue engine (\<open>process_maha_aastha_query\<close>, fastapp.py 536-681)\<close>

text \<open>
  The reply for a ticket that was found (lines 548-557, and again 584-593 and
  622-631): the formatted status, a note when the identifier is a mobile number,
  and the tracking footer.
\<close>

definition found_reply :: "ticket_row \<Rightarrow> pystr \<Rightarrow> pystr option \<Rightarrow> language \<Rightarrow> pystr" where
  "found_reply ticket_data identifier identifier_type language =
     format_simple_ticket_status (Some ticket_data) language
     @ (if identifier_type = Some (str ''mobile_number'') then
          if language = Mr then
            [10, 10, 128241, 32, 2350, 2379, 2348, 2366, 2311, 2354, 32, 2344, 2306, 2348,
            2352, 2342, 2381, 2357, 2366, 2352, 2375, 32, 2358, 2379, 2343, 2354, 2375, 32,
            2327, 2375, 2354, 2375, 58, 32] @ identifier
          else [10, 10, 128241] @ str '' Found using mobile number: '' @ identifier
        else [])
     @ [10, 10, 128279, 32] @ MAHA_AASTHA_KNOWLEDGE_BASE language track_ticket_help"

text \<open>
  Lines 542-568: the lookup made as soon as the text carries a valid
  identifier. Every branch returns, and none writes the session store.
\<close>

definition identifier_reply ::
    "unicodedata \<Rightarrow> DatabaseManager \<Rightarrow> pystr \<Rightarrow> pystr option \<Rightarrow> language \<Rightarrow> world
      \<Rightarrow> (exn + pystr) \<times> world" where
  "identifier_reply U db_manager identifier identifier_type language w =
     (case lookup_status U db_manager identifier w of
        (Inl e, w') \<Rightarrow> (Inr (MAHA_AASTHA_KNOWLEDGE_BASE language database_error), w')
      | (Inr (Some ticket_data), w') \<Rightarrow>
          (Inr (found_reply ticket_data identifier identifier_type language), w')
      | (Inr None, w') \<Rightarrow>
          if identifier_type = Some (str ''mobile_number'') then
            if language = Mr then
              (Inr ([2350, 2366, 2347, 32, 2325, 2352, 2366, 44, 32] @ identifier @ [32,
                    2351, 2366, 32, 2350, 2379, 2348, 2366, 2311, 2354, 32, 2344, 2306,
                    2348, 2352, 2360, 2366, 2336, 2368, 32, 2325, 2379, 2339, 2340, 2368,
                    2361, 2368, 32, 2340, 2367, 2325, 2368, 2335, 32, 2310, 2338, 2355,
                    2354, 2368, 32, 2344, 2366, 2361, 2368, 46, 32, 2325, 2371, 2346, 2351,
                    2366, 32, 2310, 2346, 2354, 2366, 32, 2340, 2367, 2325, 2368, 2335, 32,
                    2325, 2381, 2352, 2350, 2366, 2306, 2325, 32, 2325, 2367, 2306, 2357,
                    2366, 32, 2344, 2379, 2306, 2342, 2339, 2368, 2325, 2371, 2340, 32,
                    2350, 2379, 2348, 2366, 2311, 2354, 32, 2344, 2306, 2348, 2352, 32,
                    2340, 2346, 2366, 2360, 2366, 46]), w')
            else
              (Inr (str ''Sorry, no ticket found for mobile number '' @ identifier
                    @ str ''. Please check your ticket ID or registered mobile number.''), w')
          else (Inr (MAHA_AASTHA_KNOWLEDGE_BASE language ticket_not_found), w'))"

text \<open>
  Lines 580-604 and 618-642: the lookup of the later guards, which moves the
  session to \<open>status_shown\<close> when the ticket is found.
\<close>

definition staged_reply ::
    "unicodedata \<Rightarrow> DatabaseManager \<Rightarrow> pystr \<Rightarrow> pystr option \<Rightarrow> pystr \<Rightarrow> language \<Rightarrow> world
      \<Rightarrow> (exn + pystr) \<times> world" where
  "staged_reply U db_manager identifier identifier_type session_id language w =
     (case lookup_status U db_manager identifier w of
        (Inl e, w') \<Rightarrow> (Inr (MAHA_AASTHA_KNOWLEDGE_BASE language database_error), w')
      | (Inr (Some ticket_data), w') \<Rightarrow>
          (Inr (found_reply ticket_data identifier identifier_type language),
           set_stage session_id Status_shown w')
      | (Inr None, w') \<Rightarrow>
          if identifier_type = Some (str ''mobile_number'') then
            if language = Mr then
              (Inr ([2350, 2366, 2347, 32, 2325, 2352, 2366, 44, 32] @ identifier @ [32,
                    2351, 2366, 32, 2350, 2379, 2348, 2366, 2311, 2354, 32, 2344, 2306,
                    2348, 2352, 2360, 2366, 2336, 2368, 32, 2325, 2379, 2339, 2340, 2368,
                    2361, 2368, 32, 2340, 2367, 2325, 2368, 2335, 32, 2310, 2338, 2355,
                    2354, 2368, 32, 2344, 2366, 2361, 2368, 46]), w')
            else
              (Inr (str ''Sorry, no ticket found for mobile number '' @ identifier
                    @ str ''.''), w')
          else (Inr (MAHA_AASTHA_KNOWLEDGE_BASE language ticket_not_found), w'))"

text \<open>
  \<open>identifier and (validate_ticket_id_format(identifier) or
  validate_mobile_number_format(identifier))\<close>, lines 579 and 617.
\<close>

definition usable_identifier :: "unicodedata \<Rightarrow> pystr option \<Rightarrow> bool" where
  "usable_identifier U identifier =
     (case identifier of
        None \<Rightarrow> False
      | Some i \<Rightarrow>
          i \<noteq> [] \<and> (validate_ticket_id_format U i \<or> validate_mobile_number_format U i))"

text \<open>Lines 576-612: the text is the status question.\<close>

definition status_question_guard ::
    "unicodedata \<Rightarrow> DatabaseManager \<Rightarrow> pystr \<Rightarrow> pystr \<Rightarrow> language \<Rightarrow> world
      \<Rightarrow> (exn + pystr) \<times> world" where
  "status_question_guard U db_manager input_text session_id language w =
     (case detect_ticket_id_or_mobile U input_text of
        Inl e \<Rightarrow> (Inl e, w)
      | Inr (identifier, identifier_type) \<Rightarrow>
          if usable_identifier U identifier then
            staged_reply U db_manager (the identifier) identifier_type session_id language w
          else if language = Mr then
            (Inr (MAHA_AASTHA_KNOWLEDGE_BASE language ticket_id_prompt @ [10, 2325, 2367,
                  2306, 2357, 2366, 32, 2310, 2346, 2354, 2366, 32, 2344, 2379, 2306, 2342,
                  2339, 2368, 2325, 2371, 2340, 32, 2350, 2379, 2348, 2366, 2311, 2354, 32,
                  2344, 2306, 2348, 2352, 32, 2346, 2381, 2352, 2357, 2367, 2359, 2381,
                  2335, 32, 2325, 2352, 2366, 32, 40, 2313, 2342, 2366, 2361, 2352, 2339,
                  2366, 2352, 2381, 2341] @ str '': 9876543210)''),
             set_stage session_id Waiting_for_ticket_id w)
          else
            (Inr (MAHA_AASTHA_KNOWLEDGE_BASE language ticket_id_prompt @ [10]
                  @ str ''Or enter your registered mobile number (Example: 9876543210)''),
             set_stage session_id Waiting_for_ticket_id w))"

text \<open>Lines 614-647: the session waits for a ticket ID.\<close>

definition waiting_guard ::
    "unicodedata \<Rightarrow> DatabaseManager \<Rightarrow> pystr \<Rightarrow> pystr \<Rightarrow> language \<Rightarrow> world
      \<Rightarrow> (exn + pystr) \<times> world" where
  "waiting_guard U db_manager input_text session_id language w =
     (case detect_ticket_id_or_mobile U input_text of
        Inl e \<Rightarrow> (Inl e, w)
      | Inr (identifier, identifier_type) \<Rightarrow>
          if usable_identifier U identifier then
            staged_reply U db_manager (the identifier) identifier_type session_id language w
          else if language = Mr then
            (Inr ([2325, 2371, 2346, 2351, 2366, 32, 2351, 2379, 2327, 2381, 2351, 32, 2340,
                  2367, 2325, 2368, 2335, 32, 2325, 2381, 2352, 2350, 2366, 2306, 2325, 32,
                  2325, 2367, 2306, 2357, 2366] @ str '' 10-'' @ [2309, 2306, 2325, 2368,
                  32, 2350, 2379, 2348, 2366, 2311, 2354, 32, 2344, 2306, 2348, 2352, 32,
                  2346, 2381, 2352, 2342, 2366, 2344, 32, 2325, 2352, 2366, 46]), w)
          else
            (Inr (str ''Please provide a valid Ticket ID or 10-digit mobile number.''), w))"

definition registration_keywords :: "pystr list" where
  "registration_keywords =
     [str ''register'',
      str ''ticket'',
      str ''complaint'',
      [2340, 2367, 2325, 2368, 2335],
      [2344, 2379, 2306, 2342, 2357, 2370],
      [2358, 2367, 2325, 2366, 2351, 2340]]"

text \<open>
  The engine. It returns the reply, or the exception that escapes it, with the
  state it leaves. The only exception that can escape is the one of
  \<open>detect_ticket_id_or_mobile\<close> on line 540, raised before any store is written.
\<close>

definition process_maha_aastha_query ::
    "unicodedata \<Rightarrow> DatabaseManager \<Rightarrow> pystr \<Rightarrow> pystr \<Rightarrow> language \<Rightarrow> world
      \<Rightarrow> (exn + pystr) \<times> world" where
  "process_maha_aastha_query U db_manager input_text session_id language w =
     (case detect_ticket_id_or_mobile U input_text of
        Inl e \<Rightarrow> (Inl e, w)
      | Inr (identifier, identifier_type) \<Rightarrow>
          if truthy identifier \<and> truthy identifier_type then
            identifier_reply U db_manager (the identifier) identifier_type language w
          else
            let w = ensure_session session_id language w;
                response_type = detect_yes_no_response U input_text (lang_code language)
            in if detect_exact_status_question U input_text language then
                 status_question_guard U db_manager input_text session_id language w
               else if get_stage w session_id = Some Waiting_for_ticket_id then
                 waiting_guard U db_manager input_text session_id language w
               else if contains (lower U input_text) (str ''feedback'')
                       \<or> contains (lower U input_text)
                            [2309, 2349, 2367, 2346, 2381, 2352, 2366, 2351] then
                 (Inr (get_feedback_question language), set_stage session_id Feedback_question w)
               else if get_stage w session_id = Some Feedback_question then
                 if response_type = str ''yes'' then
                   (Inr (get_rating_request language), set_stage session_id Rating_request w)
                 else if response_type = str ''no'' then
                   (Inr (MAHA_AASTHA_KNOWLEDGE_BASE language no_response),
                    set_stage session_id Completed w)
                 else (Inr (MAHA_AASTHA_KNOWLEDGE_BASE language help_text), w)
               else if get_stage w session_id = Some Initial
                       \<or> list_ex (\<lambda>kw. contains (lower U input_text) kw) registration_keywords
               then
                 if response_type = str ''yes'' then
                   (Inr (MAHA_AASTHA_KNOWLEDGE_BASE language yes_response_intro @ [10, 10]
                         @ MAHA_AASTHA_KNOWLEDGE_BASE language yes_response_link),
                    set_stage session_id Registration_info w)
                 else if response_type = str ''no'' then
                   (Inr (get_feedback_question language),
                    set_stage session_id Feedback_question w)
                 else
                   (Inr (get_initial_response_with_status_option language),
                    set_stage session_id Awaiting_response w)
               else (Inr (get_initial_response_with_status_option language), w))"

section \<open>The endpoints (fastapp.py 85-119, 205-283, 785-849, 982-1106)\<close>

text \<open>
  What the environment supplies to one request: the session id
  \<open>generate_session_id()\<close> would return, the clock readings, and whether the
  write of the ratings file (with its fallback to the temporary directory) went
  through or raised.
\<close>

datatype write_outcome = Written | Write_failed

record env =
  generate_session_id :: pystr
  time_strftime :: pystr
  time_time :: posix_time
  now :: pystr
  now_again :: pystr
  csv_write :: write_outcome

text \<open>
  Of a response the model keeps the status code and the reply or message text of
  a JSON body, the four entries of a chat reply, and the bytes of a streamed
  body.
\<close>

datatype response =
    Reply pystr pystr pystr pystr
  | JSONResponse nat pystr
  | StreamingResponse "nat list"

text \<open>
  The request models and their validators. A \<open>QueryRequest\<close> that reaches
  \<open>process_query\<close> was built by \<open>QueryRequest_init\<close>; a failed validator is a
  ValueError, answered by the framework before the endpoint runs.
\<close>

record QueryRequest =
  q_input_text :: pystr
  q_session_id :: "pystr option"
  q_language :: pystr

definition validate_input_text :: "unicodedata \<Rightarrow> pystr \<Rightarrow> exn + pystr" where
  "validate_input_text U v =
     (let v = strip U v
      in if v = [] then Inl ValueError
         else if length v > 500 then Inl ValueError
         else Inr v)"

definition validate_language :: "pystr \<Rightarrow> exn + pystr" where
  "validate_language v = (if v \<notin> set SUPPORTED_LANGUAGES then Inl ValueError else Inr v)"

definition QueryRequest_init ::
    "unicodedata \<Rightarrow> pystr \<Rightarrow> pystr option \<Rightarrow> pystr \<Rightarrow> exn + QueryRequest" where
  "QueryRequest_init U input_text session_id language =
     (case validate_input_text U input_text of
        Inl e \<Rightarrow> Inl e
      | Inr t \<Rightarrow>
          (case validate_language language of
             Inl e \<Rightarrow> Inl e
           | Inr l \<Rightarrow> Inr \<lparr>q_input_text = t, q_session_id = session_id, q_language = l\<rparr>))"


definition validate_rating :: "int \<Rightarrow> exn + int" where
  "validate_rating v = (if v \<notin> set [1, 2, 3, 4, 5] then Inl ValueError else Inr v)"

text \<open>\<open>x or default\<close> on an optional string.\<close>

definition or_else :: "pystr option \<Rightarrow> pystr \<Rightarrow> pystr" where
  "or_else x d = (case x of None \<Rightarrow> d | Some s \<Rightarrow> if s = [] then d else s)"

text \<open>\<open>sep.join(xs)\<close>.\<close>

fun join :: "pystr \<Rightarrow> pystr list \<Rightarrow> pystr" where
  "join sep [] = []"
| "join sep [x] = x"
| "join sep (x # y # xs) = x @ sep @ join sep (y # xs)"


text \<open>
  \<open>add_to_chat_history\<close>: the new entry goes first and the list is cut to 50.
\<close>

definition add_to_chat_history ::
    "env \<Rightarrow> pystr \<Rightarrow> pystr \<Rightarrow> pystr \<Rightarrow> pystr \<Rightarrow> world \<Rightarrow> world" where
  "add_to_chat_history E session_id user_msg bot_msg language w =
     (let history = (case CHAT_HISTORY w session_id of None \<Rightarrow> [] | Some h \<Rightarrow> h);
          entry = \<lparr>user = user_msg, assistant = bot_msg, chat_language = language,
                   timestamp = time_strftime E, chat_session_id = session_id,
                   created = time_time E\<rparr>
      in w\<lparr>CHAT_HISTORY := (CHAT_HISTORY w)(session_id \<mapsto> take 50 (entry # history))\<rparr>)"

definition count_query :: "world \<Rightarrow> world" where
  "count_query w =
     w\<lparr>SYSTEM_STATUS := (SYSTEM_STATUS w)\<lparr>total_queries := total_queries (SYSTEM_STATUS w) + 1\<rparr>\<rparr>"

definition count_success :: "world \<Rightarrow> world" where
  "count_success w =
     w\<lparr>SYSTEM_STATUS :=
         (SYSTEM_STATUS w)\<lparr>successful_queries := successful_queries (SYSTEM_STATUS w) + 1\<rparr>\<rparr>"

definition count_failure :: "world \<Rightarrow> world" where
  "count_failure w =
     w\<lparr>SYSTEM_STATUS :=
         (SYSTEM_STATUS w)\<lparr>failed_queries := failed_queries (SYSTEM_STATUS w) + 1\<rparr>\<rparr>"

text \<open>
  \<open>process_query\<close>, the handler of \<open>/query/\<close>. The test
  \<open>language not in SUPPORTED_LANGUAGES\<close> is \<open>language_of language = None\<close>. The
  calls of \<open>log_chat\<close> write to the log only and are left out.
\<close>

definition process_query ::
    "unicodedata \<Rightarrow> DatabaseManager \<Rightarrow> env \<Rightarrow> QueryRequest \<Rightarrow> world \<Rightarrow> response \<times> world" where
  "process_query U db_manager E request w =
     (let w = count_query w;
          input_text = strip U (q_input_text request);
          language = lower U (q_language request)
      in if input_text = [] then
           (JSONResponse 400
              (if language = str ''mr'' then
                 [2325, 2371, 2346, 2351, 2366, 32, 2319, 2325, 32, 2357, 2376, 2343, 32,
                 2346, 2381, 2352, 2358, 2381, 2344, 32, 2346, 2381, 2352, 2342, 2366, 2344,
                 32, 2325, 2352, 2366, 46]
               else str ''Please provide a valid query.''),
            count_failure w)
         else case language_of language of
           None \<Rightarrow>
             (JSONResponse 400
                (str ''Language '' @ [39] @ language @ [39] @ str '' not supported. Use: ''
                 @ join (str '', '') SUPPORTED_LANGUAGES),
              count_failure w)
         | Some lang \<Rightarrow>
             let session_id = or_else (q_session_id request) (generate_session_id E);
                 (is_greet, greet_key) = detect_greeting U input_text
             in if is_greet then
                  let w = count_success w;
                      reply_text = greeting_reply lang greet_key
                  in (Reply reply_text language session_id language,
                      add_to_chat_history E session_id input_text reply_text language w)
                else
                  case process_maha_aastha_query U db_manager input_text session_id lang w of
                    (Inr assistant_reply, w) \<Rightarrow>
                      (Reply assistant_reply language session_id language,
                       add_to_chat_history E session_id input_text assistant_reply language
                         (count_success w))
                  | (Inl query_error, w) \<Rightarrow>
                      (JSONResponse 500
                         (if language = str ''mr'' then
                            [2340, 2369, 2350, 2330, 2366, 32, 2346, 2381, 2352, 2358, 2381,
                            2344, 32, 2346, 2381, 2352, 2325, 2381, 2352, 2367, 2351, 2366,
                            32, 2325, 2352, 2340, 2366, 2344, 32, 2340, 2381, 2352, 2369,
                            2335, 2368, 32, 2310, 2354, 2368, 46, 32, 2325, 2371, 2346,
                            2351, 2366, 32, 2344, 2306, 2340, 2352, 32, 2346, 2369, 2344,
                            2381, 2361, 2366, 32, 2346, 2381, 2352, 2351, 2340, 2381, 2344,
                            32, 2325, 2352, 2366, 46]
                          else
                            str ''An error occurred while processing your query. Please try again later.''),
                       (count_failure w)
                         \<lparr>SYSTEM_STATUS :=
                            (SYSTEM_STATUS (count_failure w))\<lparr>last_error := Some query_error\<rparr>\<rparr>))"






















section \<open>Properties\<close>

subsection \<open>The character tables on Basic Latin and Devanagari\<close>

lemma isdecimal_latin: "c < 128 \<Longrightarrow> cpython_isdecimal c \<longleftrightarrow> 48 \<le> c \<and> c \<le> 57"
  by (simp add: cpython_isdecimal_def decimal_ranges_def)

lemma isdecimal_devanagari:
  "2304 \<le> c \<Longrightarrow> c < 2432 \<Longrightarrow> cpython_isdecimal c \<longleftrightarrow> 2406 \<le> c \<and> c \<le> 2415"
  by (simp add: cpython_isdecimal_def decimal_ranges_def)

lemma isalnum_latin:
  "c < 128 \<Longrightarrow>
   cpython_isalnum c \<longleftrightarrow> (48 \<le> c \<and> c \<le> 57) \<or> (65 \<le> c \<and> c \<le> 90) \<or> (97 \<le> c \<and> c \<le> 122)"
  by (simp add: cpython_isalnum_def alnum_ranges_def)

lemma isalnum_devanagari:
  "2304 \<le> c \<Longrightarrow> c < 2432 \<Longrightarrow>
   cpython_isalnum c \<longleftrightarrow>
     (2308 \<le> c \<and> c \<le> 2361) \<or> c = 2365 \<or> c = 2384 \<or> (2392 \<le> c \<and> c \<le> 2401) \<or>
     (2406 \<le> c \<and> c \<le> 2415) \<or> (2417 \<le> c \<and> c \<le> 2431)"
  by (simp add: cpython_isalnum_def alnum_ranges_def)

lemma lower_char_latin:
  "c < 128 \<Longrightarrow> lower_char c = [if 65 \<le> c \<and> c \<le> 90 then c + 32 else c]"
  by (simp add: lower_char_def lower_runs_def)

lemma lower_char_devanagari: "2304 \<le> c \<Longrightarrow> c < 2432 \<Longrightarrow> lower_char c = [c]"
  by (simp add: lower_char_def lower_runs_def)

lemma lower_from_plain:
  "list_all plain_script s \<Longrightarrow>
   lower_from front s = map (\<lambda>c. if 65 \<le> c \<and> c \<le> 90 then c + 32 else c) s"
proof (induction s arbitrary: front)
  case Nil
  then show ?case by simp
next
  case (Cons c s)
  from Cons.prems have "plain_script c" and rest: "list_all plain_script s" by simp_all
  then consider "c < 128" | "2304 \<le> c" "c < 2432" by (auto simp: plain_script_def)
  then have "c \<noteq> 931 \<and> lower_char c = [if 65 \<le> c \<and> c \<le> 90 then c + 32 else c]"
  proof cases
    case 1
    then show ?thesis by (simp add: lower_char_latin)
  next
    case 2
    then show ?thesis by (simp add: lower_char_devanagari)
  qed
  then show ?case using Cons.IH [OF rest] by simp
qed

lemma lower_plain:
  "list_all plain_script s \<Longrightarrow>
   cpython_lower s = map (\<lambda>c. if 65 \<le> c \<and> c \<le> 90 then c + 32 else c) s"
  by (simp add: cpython_lower_def lower_from_plain)

subsection \<open>Evaluation rules\<close>

lemmas runtime_defs =
  str_def cpython_def cpython_isspace_def isdecimal_latin isdecimal_devanagari isalnum_latin
  isalnum_devanagari lower_plain plain_script_def strip_def is_word_def word_at_def
  boundary_def run_def match_at_def
  re_search_def re_found_def delete_chars_def wb_def

lemmas greeting_defs =
  greeting_punct_def good_pattern_def hello_pattern_def greeting_patterns_def
  detect_greeting_def

lemmas yes_no_defs =
  yes_patterns_en_def no_patterns_en_def yes_patterns_mr_def no_patterns_mr_def
  detect_yes_no_response_def

lemmas identifier_defs =
  alnum_ci_def tkt_ci_def ticket_patterns_def detect_ticket_id_def valid_patterns_def
  re_match_def validate_ticket_id_format_def finditer_def py_group_def truthy_def
  mobile_patterns_def select_mobile_def in_6789_def detect_mobile_number_def digits_only_def
  validate_mobile_number_format_def detect_ticket_id_or_mobile_def group_def group0_def

lemmas status_defs = detect_exact_status_question_def status_patterns_def

lemmas engine_defs =
  process_maha_aastha_query_def identifier_reply_def lookup_status_def get_ticket_status_def
  ensure_session_def get_stage_def set_stage_def registration_keywords_def

subsection \<open>What the detectors do on the texts of the scenarios\<close>

lemma detect_bare_mobile:
  "detect_ticket_id_or_mobile cpython (str ''9876543210'')
     = Inr (Some (str ''9876543210''), Some (str ''ticket_id''))"
  by (simp add: runtime_defs identifier_defs)

lemma detect_ticket_code:
  "detect_ticket_id_or_mobile cpython (str ''TKT-ab12cd'')
     = Inr (Some (str ''TKT-ab12cd''), Some (str ''ticket_id''))"
  by (simp add: runtime_defs identifier_defs)

lemma detect_none_yes: "detect_ticket_id_or_mobile cpython (str ''yes'') = Inr (None, None)"
  by (simp add: runtime_defs identifier_defs)

lemma detect_none_hoy:
  "detect_ticket_id_or_mobile cpython [2361, 2379, 2351] = Inr (None, None)"
  by (simp add: runtime_defs identifier_defs)

lemma detect_none_no: "detect_ticket_id_or_mobile cpython (str ''no'') = Inr (None, None)"
  by (simp add: runtime_defs identifier_defs)

lemma yes_is_yes: "detect_yes_no_response cpython (str ''yes'') l = str ''yes''"
  by (simp add: runtime_defs yes_no_defs)

lemma hoy_is_yes: "detect_yes_no_response cpython [2361, 2379, 2351] l = str ''yes''"
  by (simp add: runtime_defs yes_no_defs)

lemma no_is_no: "detect_yes_no_response cpython (str ''no'') l = str ''no''"
  by (simp add: runtime_defs yes_no_defs)

lemma yes_not_status_question: "\<not> detect_exact_status_question cpython (str ''yes'') l"
  by (cases l) (simp_all add: runtime_defs status_defs)

lemma hoy_not_status_question:
  "\<not> detect_exact_status_question cpython [2361, 2379, 2351] l"
  by (cases l) (simp_all add: runtime_defs status_defs)

lemma no_not_status_question: "\<not> detect_exact_status_question cpython (str ''no'') l"
  by (cases l) (simp_all add: runtime_defs status_defs)

text \<open>The store never raises: whatever the driver does, the caller gets a value.\<close>

lemma get_ticket_status_never_raises: "get_ticket_status U db_manager identifier \<noteq> Inl e"
  by (simp add: get_ticket_status_def Let_def split: option.splits sum.splits)

subsection \<open>Requests that passed validation\<close>

lemma rev_dropWhile_rev_prefix:
  "\<exists>v. t = rev (dropWhile P (rev t)) @ v"
proof -
  have "rev t = takeWhile P (rev t) @ dropWhile P (rev t)" by simp
  then have "t = rev (takeWhile P (rev t) @ dropWhile P (rev t))" by (metis rev_rev_ident)
  then show ?thesis by (metis rev_append)
qed

lemma strip_idem: "strip U (strip U s) = strip U s"
proof -
  define P where "P = isspace U"
  define t where "t = dropWhile P s"
  define u where "u = rev (dropWhile P (rev t))"
  have lead: "dropWhile P u = u"
  proof (cases "u = []")
    case True
    then show ?thesis by simp
  next
    case False
    obtain v where tv: "t = u @ v" using rev_dropWhile_rev_prefix [of t P] by (auto simp: u_def)
    with False have "t \<noteq> []" and "hd u = hd t" by auto
    then have "\<not> P (hd u)" using hd_dropWhile [of P s] by (simp add: t_def)
    with False show ?thesis by (cases u) auto
  qed
  have trail: "dropWhile P (rev u) = rev u" by (simp add: u_def)
  have "strip U s = u" by (simp add: strip_def P_def t_def u_def)
  moreover have "rev (dropWhile P (rev (dropWhile P u))) = u" by (simp add: lead trail)
  ultimately show ?thesis by (simp add: strip_def P_def [symmetric])
qed

lemma detect_greeting_strip: "detect_greeting U (strip U s) = detect_greeting U s"
  by (simp add: detect_greeting_def strip_idem)

lemma validated_request:
  assumes "QueryRequest_init U raw_text raw_session raw_language = Inr request"
  shows "q_input_text request = strip U raw_text" and "strip U raw_text \<noteq> []"
    and "q_language request = str ''en'' \<or> q_language request = str ''mr''"
    and "q_session_id request = raw_session"
  using assms
  by (auto simp: QueryRequest_init_def validate_input_text_def validate_language_def
      SUPPORTED_LANGUAGES_def Let_def split: sum.splits if_splits)

lemma chat_history_keeps:
  "lookups (add_to_chat_history E sid a b l w) = lookups w"
  "USER_SESSION_STATE (add_to_chat_history E sid a b l w) = USER_SESSION_STATE w"
  "RATINGS_DATA (add_to_chat_history E sid a b l w) = RATINGS_DATA w"
  by (simp_all add: add_to_chat_history_def Let_def)

lemma counters_keep:
  "lookups (count_query w) = lookups w" "lookups (count_success w) = lookups w"
  "lookups (count_failure w) = lookups w"
  "USER_SESSION_STATE (count_query w) = USER_SESSION_STATE w"
  "USER_SESSION_STATE (count_success w) = USER_SESSION_STATE w"
  "USER_SESSION_STATE (count_failure w) = USER_SESSION_STATE w"
  "RATINGS_DATA (count_query w) = RATINGS_DATA w"
  "RATINGS_DATA (count_success w) = RATINGS_DATA w"
  "RATINGS_DATA (count_failure w) = RATINGS_DATA w"
  by (simp_all add: count_query_def count_success_def count_failure_def)

subsection \<open>What the endpoints leave untouched\<close>



lemma lookup_status_ledger: "RATINGS_DATA (snd (lookup_status U db i w)) = RATINGS_DATA w"
  by (simp add: lookup_status_def)












subsection \<open>The ledger and its export\<close>

































subsection \<open>The stage \<open>status_shown\<close>\<close>

text \<open>
  \<open>detect_ticket_id_or_mobile\<close> returns an identifier with its type or nothing
  at all, so a text that gets past the first lookup of the engine carries no
  identifier for the later guards either: no call of the engine puts a session
  in stage \<open>status_shown\<close>.
\<close>

lemma detect_shape:
  assumes "detect_ticket_id_or_mobile U t = Inr (a, b)"
  shows "(truthy a \<and> truthy b) \<or> (a = None \<and> b = None)"
  using assms
  by (auto simp: detect_ticket_id_or_mobile_def Let_def truthy_def str_def
      split: if_splits sum.splits)

lemma set_stage_other:
  "s \<noteq> Status_shown \<Longrightarrow> get_stage (set_stage sid s w) sid' = Some Status_shown
     \<Longrightarrow> get_stage w sid' = Some Status_shown"
  by (auto simp: get_stage_def set_stage_def split: if_splits)

lemma ensure_session_other:
  "get_stage (ensure_session sid l w) sid' = Some Status_shown
     \<Longrightarrow> get_stage w sid' = Some Status_shown"
  by (auto simp: get_stage_def ensure_session_def split: if_splits option.splits)

lemma stage_write_other:
  "get_stage (set_stage sid s (ensure_session sid l w)) sid' = Some Status_shown
     \<Longrightarrow> s \<noteq> Status_shown
     \<Longrightarrow> get_stage w sid' = Some Status_shown"
  by (blast dest: set_stage_other ensure_session_other)

lemma identifier_reply_sessions:
  "USER_SESSION_STATE (snd (identifier_reply U db i ty l w)) = USER_SESSION_STATE w"
  by (simp add: identifier_reply_def lookup_status_def split: sum.splits option.splits)

lemma status_shown_never_written:
  assumes "get_stage (snd (process_maha_aastha_query U db t sid l w)) sid' = Some Status_shown"
  shows "get_stage w sid' = Some Status_shown"
proof (cases "detect_ticket_id_or_mobile U t")
  case (Inl e)
  with assms show ?thesis by (simp add: process_maha_aastha_query_def)
next
  case (Inr p)
  obtain a b where p: "p = (a, b)" by (cases p)
  from Inr p detect_shape [of U t a b]
  consider "truthy a \<and> truthy b" | "a = None \<and> b = None" by auto
  then show ?thesis
  proof cases
    case 1
    with assms Inr p have "get_stage (snd (identifier_reply U db (the a) b l w)) sid'
        = Some Status_shown"
      by (simp add: process_maha_aastha_query_def)
    then show ?thesis by (simp add: get_stage_def identifier_reply_sessions)
  next
    case 2
    with assms Inr p show ?thesis
      by (auto simp: process_maha_aastha_query_def Let_def truthy_def
          status_question_guard_def waiting_guard_def usable_identifier_def
          split: if_splits dest: stage_write_other ensure_session_other)
  qed
qed

subsection \<open>The claims\<close>

text \<open>
  C1. Stage \<open>initial\<close>, input "9876543210", a store with no record for that
  number. The claim expects the mobile-specific not-found message. The engine
  leaves the session store as it was, but its reply is the generic
  \<open>ticket_not_found\<close> message, which does not hold the number:
  \<open>detect_ticket_id\<close> takes the ten digits for a ticket
  ID (its third pattern is any run of six or more digits), so the identifier is
  typed \<open>ticket_id\<close> and the mobile branch of lines 559-563 is not reached.
\<close>

theorem bare_mobile_number_gets_generic_reply:
  "process_maha_aastha_query cpython \<lparr>pool = Some (\<lambda>q p. Inr None)\<rparr> (str ''9876543210'')
       session_id language w
     = (Inr (MAHA_AASTHA_KNOWLEDGE_BASE language ticket_not_found),
        w\<lparr>lookups := lookups w @ [str ''9876543210'']\<rparr>)
   \<and> \<not> contains (MAHA_AASTHA_KNOWLEDGE_BASE language ticket_not_found) (str ''9876543210'')
   \<and> MAHA_AASTHA_KNOWLEDGE_BASE En ticket_not_found
       \<noteq> str ''Sorry, no ticket found for mobile number 9876543210.''
         @ str '' Please check your ticket ID or registered mobile number.''"
proof -
  have "process_maha_aastha_query cpython \<lparr>pool = Some (\<lambda>q p. Inr None)\<rparr>
          (str ''9876543210'') session_id language w
        = (Inr (MAHA_AASTHA_KNOWLEDGE_BASE language ticket_not_found),
           w\<lparr>lookups := lookups w @ [str ''9876543210'']\<rparr>)"
    by (simp add: detect_bare_mobile engine_defs truthy_def) (simp add: str_def)
  moreover have "\<not> contains (MAHA_AASTHA_KNOWLEDGE_BASE language ticket_not_found)
                     (str ''9876543210'')"
    by (cases language) (simp_all add: KB_en_def KB_mr_def str_def)
  moreover have "MAHA_AASTHA_KNOWLEDGE_BASE En ticket_not_found
       \<noteq> str ''Sorry, no ticket found for mobile number 9876543210.''
         @ str '' Please check your ticket ID or registered mobile number.''"
    by (simp add: KB_en_def str_def)
  ultimately show ?thesis by simp
qed

text \<open>
  C2. Stage \<open>waiting_for_ticket_id\<close>, input "TKT-ab12cd", a store that returns a
  record with status Resolved. The reply does contain "TKT-ab12cd" and
  "Resolved", but the stage after the call is still \<open>waiting_for_ticket_id\<close>: the
  lookup of lines 542-568 answers first and returns without writing the session
  store, so the assignment of \<open>status_shown\<close> on line 621 is never reached
  (\<open>status_shown_never_written\<close> above: on no input at all).
\<close>

theorem ticket_found_while_waiting_keeps_stage:
  "(let row = \<lparr>ticket = Some (str ''TKT-ab12cd''), employee_name = None, mobile_number = None,
               office_name = None, district_name = None, issue_category = None,
               subject = None, status = Some (str ''Resolved''), created_at = None,
               updated_at = None\<rparr>;
        w = set_stage session_id Waiting_for_ticket_id (ensure_session session_id En startup);
        r = process_maha_aastha_query cpython \<lparr>pool = Some (\<lambda>q p. Inr (Some row))\<rparr>
              (str ''TKT-ab12cd'') session_id En w
    in get_stage w session_id = Some Waiting_for_ticket_id
       \<and> fst r = Inr (found_reply row (str ''TKT-ab12cd'') (Some (str ''ticket_id'')) En)
       \<and> contains (found_reply row (str ''TKT-ab12cd'') (Some (str ''ticket_id'')) En)
            (str ''TKT-ab12cd'')
       \<and> contains (found_reply row (str ''TKT-ab12cd'') (Some (str ''ticket_id'')) En)
            (str ''Resolved'')
       \<and> get_stage (snd r) session_id = Some Waiting_for_ticket_id)"
proof -
  define row where "row = \<lparr>ticket = Some (str ''TKT-ab12cd''), employee_name = None,
    mobile_number = None, office_name = None, district_name = None, issue_category = None,
    subject = None, status = Some (str ''Resolved''), created_at = None, updated_at = None\<rparr>"
  define w where
    "w = set_stage session_id Waiting_for_ticket_id (ensure_session session_id En startup)"
  have stage: "get_stage w session_id = Some Waiting_for_ticket_id"
    by (simp add: w_def get_stage_def set_stage_def ensure_session_def startup_def)
  have mapped: "map_status (Some (str ''Resolved'')) = Some (str ''Resolved'')"
    by (simp add: map_status_def status_map_def str_def)
  have run: "process_maha_aastha_query cpython \<lparr>pool = Some (\<lambda>q p. Inr (Some row))\<rparr>
               (str ''TKT-ab12cd'') session_id En w
             = (Inr (found_reply row (str ''TKT-ab12cd'') (Some (str ''ticket_id'')) En),
                w\<lparr>lookups := lookups w @ [str ''TKT-ab12cd'']\<rparr>)"
    by (simp add: detect_ticket_code engine_defs truthy_def)
       (simp add: row_def mapped, simp add: str_def)
  have reply: "found_reply row (str ''TKT-ab12cd'') (Some (str ''ticket_id'')) En
      = str ''The current status of your Ticket is as follows:'' @ [10] @ str ''Ticket ID: ''
        @ str ''TKT-ab12cd'' @ [10] @ str ''Status: '' @ str ''Resolved'' @ [10]
        @ str ''Created: Not available'' @ [10] @ str ''Employee Name: None'' @ [10]
        @ str ''Category: None'' @ [10, 10, 128279, 32]
        @ str ''You can also track your ticket status at: #view-ticket''"
    by (simp add: found_reply_def format_simple_ticket_status_def row_def show_field_def
          truthy_def KB_en_def) (simp add: str_def)
  have c1: "contains (found_reply row (str ''TKT-ab12cd'') (Some (str ''ticket_id'')) En)
              (str ''TKT-ab12cd'')"
    unfolding reply by (simp add: str_def)
  have c2: "contains (found_reply row (str ''TKT-ab12cd'') (Some (str ''ticket_id'')) En)
              (str ''Resolved'')"
    unfolding reply by (simp add: str_def)
  have after: "get_stage (w\<lparr>lookups := lookups w @ [str ''TKT-ab12cd'']\<rparr>) session_id
      = Some Waiting_for_ticket_id"
    using stage by (simp add: get_stage_def)
  show ?thesis
    using stage run c1 c2 after by (simp add: row_def [symmetric] w_def [symmetric])
qed

text \<open>
  C3. A valid identifier and a store that fails. \<open>get_ticket_status\<close> catches
  the failure itself and returns \<open>None\<close>, which is also its answer for "no such
  record"; the \<open>except\<close> branch of the engine that would give the
  \<open>database_error\<close> message never runs. The reply is the not-found message, for
  a driver that raises as for a pool that is missing.
\<close>

theorem store_failure_gets_not_found_reply:
  "process_maha_aastha_query cpython \<lparr>pool = Some (\<lambda>q p. Inl StoreError)\<rparr> (str ''TKT-ab12cd'')
       session_id language w
     = (Inr (MAHA_AASTHA_KNOWLEDGE_BASE language ticket_not_found),
        w\<lparr>lookups := lookups w @ [str ''TKT-ab12cd'']\<rparr>)
   \<and> process_maha_aastha_query cpython \<lparr>pool = None\<rparr> (str ''TKT-ab12cd'')
       session_id language w
     = (Inr (MAHA_AASTHA_KNOWLEDGE_BASE language ticket_not_found),
        w\<lparr>lookups := lookups w @ [str ''TKT-ab12cd'']\<rparr>)
   \<and> MAHA_AASTHA_KNOWLEDGE_BASE language ticket_not_found
       \<noteq> MAHA_AASTHA_KNOWLEDGE_BASE language database_error"
proof -
  have a: "process_maha_aastha_query cpython \<lparr>pool = Some (\<lambda>q p. Inl StoreError)\<rparr>
             (str ''TKT-ab12cd'') session_id language w
           = (Inr (MAHA_AASTHA_KNOWLEDGE_BASE language ticket_not_found),
              w\<lparr>lookups := lookups w @ [str ''TKT-ab12cd'']\<rparr>)"
    by (simp add: detect_ticket_code engine_defs truthy_def) (simp add: str_def)
  have b: "process_maha_aastha_query cpython \<lparr>pool = None\<rparr>
             (str ''TKT-ab12cd'') session_id language w
           = (Inr (MAHA_AASTHA_KNOWLEDGE_BASE language ticket_not_found),
              w\<lparr>lookups := lookups w @ [str ''TKT-ab12cd'']\<rparr>)"
    by (simp add: detect_ticket_code engine_defs truthy_def) (simp add: str_def)
  have c: "MAHA_AASTHA_KNOWLEDGE_BASE language ticket_not_found
             \<noteq> MAHA_AASTHA_KNOWLEDGE_BASE language database_error"
    by (cases language) (simp_all add: KB_en_def KB_mr_def str_def)
  from a b c show ?thesis by simp
qed

text \<open>
  C4. \<open>detect_mobile_number\<close> is not total. On "9876543210" the first pattern
  matches without its optional prefix, so \<open>group(1)\<close> is \<open>None\<close> and the
  \<open>else\<close> branch cuts the first digit off the match; the nine digits left fail
  the length test. The second pattern then matches, \<open>group(1)\<close> is the number,
  and \<open>match.group(2)\<close> raises IndexError, that pattern having one group only.
  The third pattern fails in the same way on a number written with a leading 0.
  A number comes back only when the first pattern matches with its prefix. The
  engine meets the exception on a text such as "98765-43210", which the ticket
  detector leaves to \<open>detect_mobile_number\<close>.
\<close>

theorem detect_mobile_number_raises:
  "detect_mobile_number cpython (str ''9876543210'') = Inl IndexError
   \<and> detect_mobile_number cpython (str ''09876543210'') = Inl IndexError
   \<and> detect_mobile_number cpython (str ''1+919876543210'') = Inr (Some (str ''9876543210''))
   \<and> detect_ticket_id_or_mobile cpython (str ''98765-43210'') = Inl IndexError"
  by (simp add: runtime_defs identifier_defs)

text \<open>
  C5. \<open>validate_mobile_number_format\<close> accepts every string of ten digits whose
  first is 6, 7, 8 or 9, and rejects every string whose digits are fewer than
  ten, or are ten and start with a digit from 0 to 5. (Such a string is never
  one of the 11- or 12-digit forms, so the exception the claim makes for them
  needs no hypothesis.) A digit is what the runtime's \<open>\d\<close> matches.
\<close>

theorem validate_mobile_number_format_accepts_rejects:
  "(length s = 10 \<and> list_all (isdecimal U) s \<and> in_6789 (hd s)
      \<longrightarrow> validate_mobile_number_format U s)
   \<and> (length (digits_only U t) < 10
       \<or> (length (digits_only U t) = 10 \<and> hd (digits_only U t) \<in> set (str ''012345''))
      \<longrightarrow> \<not> validate_mobile_number_format U t)"
proof (intro conjI impI)
  assume a: "length s = 10 \<and> list_all (isdecimal U) s \<and> in_6789 (hd s)"
  then have "digits_only U s = s"
    by (simp add: digits_only_def delete_chars_def list_all_iff)
  moreover from a have "s \<noteq> []" by auto
  then have "hd s = s ! 0" by (simp add: hd_conv_nth)
  ultimately show "validate_mobile_number_format U s"
    using a by (simp add: validate_mobile_number_format_def)
next
  assume b: "length (digits_only U t) < 10
     \<or> (length (digits_only U t) = 10 \<and> hd (digits_only U t) \<in> set (str ''012345''))"
  show "\<not> validate_mobile_number_format U t"
  proof (cases "length (digits_only U t) < 10")
    case True
    then show ?thesis by (simp add: validate_mobile_number_format_def Let_def)
  next
    case False
    with b have len: "length (digits_only U t) = 10"
      and h: "hd (digits_only U t) \<in> set (str ''012345'')" by auto
    from len have "digits_only U t \<noteq> []" by auto
    then have "hd (digits_only U t) = digits_only U t ! 0" by (simp add: hd_conv_nth)
    with h have "\<not> in_6789 (digits_only U t ! 0)"
      by (auto simp: in_6789_def str_def)
    with len show ?thesis by (simp add: validate_mobile_number_format_def Let_def)
  qed
qed

theorem validate_mobile_number_format_witness:
  "validate_mobile_number_format cpython (str ''9876543210'')
   \<and> \<not> validate_mobile_number_format cpython (str ''98-76'')
   \<and> \<not> validate_mobile_number_format cpython (str ''5876543210'')"
proof -
  have a: "length (str ''9876543210'') = 10 \<and> list_all (isdecimal cpython) (str ''9876543210'')
           \<and> in_6789 (hd (str ''9876543210''))"
    by (simp add: runtime_defs in_6789_def)
  have b: "length (digits_only cpython (str ''98-76'')) < 10"
    by (simp add: runtime_defs digits_only_def)
  have c: "length (digits_only cpython (str ''5876543210'')) = 10
           \<and> hd (digits_only cpython (str ''5876543210'')) \<in> set (str ''012345'')"
    by (simp add: runtime_defs digits_only_def)
  show ?thesis
    using a b c
      validate_mobile_number_format_accepts_rejects
        [of "str ''9876543210''" cpython "str ''98-76''"]
      validate_mobile_number_format_accepts_rejects
        [of "str ''9876543210''" cpython "str ''5876543210''"]
    by blast
qed

text \<open>
  C6. From stage \<open>initial\<close> (a session in that stage, or a session id the store
  does not hold yet, which the engine creates in that stage), the texts "yes"
  and U+0939 U+094B U+092F move the session to \<open>registration_info\<close> with the
  registration-link reply. From stage \<open>feedback_question\<close>, "no" moves it to
  \<open>completed\<close> with the closing message. Both hold in either language and
  whatever the store holds.
\<close>

theorem yes_and_no_transitions:
  assumes "get_stage w sid = Some Initial \<or> USER_SESSION_STATE w sid = None"
    and "get_stage w' sid' = Some Feedback_question"
    and "text = str ''yes'' \<or> text = [2361, 2379, 2351]"
  shows "fst (process_maha_aastha_query cpython db text sid language w)
           = Inr (MAHA_AASTHA_KNOWLEDGE_BASE language yes_response_intro @ [10, 10]
                  @ MAHA_AASTHA_KNOWLEDGE_BASE language yes_response_link)
         \<and> get_stage (snd (process_maha_aastha_query cpython db text sid language w)) sid
           = Some Registration_info
         \<and> fst (process_maha_aastha_query cpython db' (str ''no'') sid' language' w')
           = Inr (MAHA_AASTHA_KNOWLEDGE_BASE language' no_response)
         \<and> get_stage (snd (process_maha_aastha_query cpython db' (str ''no'') sid' language' w'))
             sid' = Some Completed"
proof -
  have yes: "process_maha_aastha_query cpython db text sid language w
      = (Inr (MAHA_AASTHA_KNOWLEDGE_BASE language yes_response_intro @ [10, 10]
              @ MAHA_AASTHA_KNOWLEDGE_BASE language yes_response_link),
         set_stage sid Registration_info (ensure_session sid language w))"
    using assms(3)
  proof
    assume "text = str ''yes''"
    with assms(1) show ?thesis
      apply (simp add: detect_none_yes yes_is_yes yes_not_status_question engine_defs
          truthy_def Let_def)
      apply (simp add: runtime_defs)
      apply (auto split: option.splits)
      done
  next
    assume "text = [2361, 2379, 2351]"
    with assms(1) show ?thesis
      apply (simp add: detect_none_hoy hoy_is_yes hoy_not_status_question engine_defs
          truthy_def Let_def)
      apply (simp add: runtime_defs)
      apply (auto split: option.splits)
      done
  qed
  have registered:
    "get_stage (set_stage sid Registration_info (ensure_session sid language w)) sid
       = Some Registration_info"
    using assms(1)
    by (auto simp: get_stage_def set_stage_def ensure_session_def split: option.splits)
  have no: "process_maha_aastha_query cpython db' (str ''no'') sid' language' w'
      = (Inr (MAHA_AASTHA_KNOWLEDGE_BASE language' no_response), set_stage sid' Completed w')"
    using assms(2)
    apply (simp add: detect_none_no no_is_no no_not_status_question engine_defs
        truthy_def Let_def)
    apply (simp add: runtime_defs)
    apply (auto split: option.splits)
    done
  have completed: "get_stage (set_stage sid' Completed w') sid' = Some Completed"
    using assms(2) by (auto simp: get_stage_def set_stage_def split: option.splits)
  show ?thesis by (simp add: yes no registered completed)
qed

theorem yes_and_no_transitions_witness:
  "fst (process_maha_aastha_query cpython \<lparr>pool = None\<rparr> (str ''yes'') (str ''s1'') En startup)
     = Inr (MAHA_AASTHA_KNOWLEDGE_BASE En yes_response_intro @ [10, 10]
            @ MAHA_AASTHA_KNOWLEDGE_BASE En yes_response_link)
   \<and> get_stage (snd (process_maha_aastha_query cpython \<lparr>pool = None\<rparr> (str ''yes'')
                       (str ''s1'') En startup)) (str ''s1'')
     = Some Registration_info
   \<and> fst (process_maha_aastha_query cpython \<lparr>pool = None\<rparr> (str ''no'') (str ''s2'') Mr
            (set_stage (str ''s2'') Feedback_question (ensure_session (str ''s2'') Mr startup)))
     = Inr (MAHA_AASTHA_KNOWLEDGE_BASE Mr no_response)
   \<and> get_stage (snd (process_maha_aastha_query cpython \<lparr>pool = None\<rparr> (str ''no'') (str ''s2'') Mr
            (set_stage (str ''s2'') Feedback_question (ensure_session (str ''s2'') Mr startup))))
        (str ''s2'')
     = Some Completed"
proof -
  have a: "get_stage startup (str ''s1'') = Some Initial
           \<or> USER_SESSION_STATE startup (str ''s1'') = None"
    by (simp add: startup_def)
  have b: "get_stage (set_stage (str ''s2'') Feedback_question
                        (ensure_session (str ''s2'') Mr startup)) (str ''s2'')
           = Some Feedback_question"
    by (simp add: get_stage_def set_stage_def ensure_session_def startup_def)
  have c: "str ''yes'' = str ''yes'' \<or> str ''yes'' = [2361, 2379, 2351]"
    by simp
  show ?thesis
    by (rule yes_and_no_transitions [OF a b c])
qed

text \<open>
  C7. \<open>detect_yes_no_response\<close> does not read its language argument: for any
  text and any two languages the answers agree.
\<close>

theorem yes_no_ignores_language:
  "detect_yes_no_response U text l1 = detect_yes_no_response U text l2"
  by (simp add: detect_yes_no_response_def)

text \<open>
  C8. The text "hello good night" holds both a "hello" token and a "good night"
  token; \<open>detect_greeting\<close> answers with the category whose pattern comes first
  in the list, which is "hello".
\<close>

theorem greeting_hello_before_good_night:
  "detect_greeting cpython (str ''hello good night'') = (True, str ''hello'')"
  by (simp add: runtime_defs greeting_defs)




text \<open>
  C10. A request that passed the validators of \<open>QueryRequest\<close> and whose text
  holds a greeting token gets the greeting reply from \<open>/query/\<close>: no lookup is
  made and the session store is left as it was, also when the text carries a
  valid ticket ID (the witness is "hello TKT-ab12cd"). The endpoint lowers the
  language code before it compares it; that \<open>en\<close> and \<open>mr\<close> are their own
  lower case is a fact of the runtime's tables, here a premise on \<open>U\<close>.
\<close>

theorem greeting_overrides_dialogue:
  assumes "QueryRequest_init U raw_text raw_session raw_language = Inr request"
    and "lower U (str ''en'') = str ''en''" and "lower U (str ''mr'') = str ''mr''"
    and "detect_greeting U raw_text = (True, key)"
  shows "\<exists>lang. language_of (q_language request) = Some lang
     \<and> fst (process_query U db_manager E request w)
       = Reply (greeting_reply lang key) (q_language request)
           (or_else (q_session_id request) (generate_session_id E)) (q_language request)
     \<and> lookups (snd (process_query U db_manager E request w)) = lookups w
     \<and> USER_SESSION_STATE (snd (process_query U db_manager E request w))
       = USER_SESSION_STATE w"
proof -
  note v = validated_request [OF assms(1)]
  have stripped: "strip U (q_input_text request) = strip U raw_text"
    by (simp add: v(1) strip_idem)
  have low: "lower U (q_language request) = q_language request"
    using v(3) assms(2,3) by auto
  have "\<exists>lang. language_of (q_language request) = Some lang"
    using v(3) by (auto simp: language_of_def str_def)
  then obtain lang where lang: "language_of (q_language request) = Some lang" ..
  have greet: "detect_greeting U (strip U raw_text) = (True, key)"
    by (simp add: detect_greeting_strip assms(4))
  have "process_query U db_manager E request w
      = (Reply (greeting_reply lang key) (q_language request)
           (or_else (q_session_id request) (generate_session_id E)) (q_language request),
         add_to_chat_history E (or_else (q_session_id request) (generate_session_id E))
           (strip U raw_text) (greeting_reply lang key) (q_language request)
           (count_success (count_query w)))"
    by (simp add: process_query_def Let_def stripped low lang greet v(2))
  then show ?thesis
    using lang by (simp add: chat_history_keeps counters_keep)
qed

theorem greeting_overrides_dialogue_witness:
  "\<forall>db_manager E w.
     detect_ticket_id_or_mobile cpython (str ''hello TKT-ab12cd'')
       = Inr (Some (str ''TKT-ab12cd''), Some (str ''ticket_id''))
     \<and> fst (process_query cpython db_manager E
              \<lparr>q_input_text = str ''hello TKT-ab12cd'', q_session_id = None,
               q_language = str ''en''\<rparr> w)
       = Reply (str ''Hello! '' @ MAHA_AASTHA_KNOWLEDGE_BASE En welcome_message) (str ''en'')
           (generate_session_id E) (str ''en'')
     \<and> lookups (snd (process_query cpython db_manager E
              \<lparr>q_input_text = str ''hello TKT-ab12cd'', q_session_id = None,
               q_language = str ''en''\<rparr> w)) = lookups w
     \<and> USER_SESSION_STATE (snd (process_query cpython db_manager E
              \<lparr>q_input_text = str ''hello TKT-ab12cd'', q_session_id = None,
               q_language = str ''en''\<rparr> w)) = USER_SESSION_STATE w"
proof (intro allI)
  fix db_manager E w
  define request where "request = \<lparr>q_input_text = str ''hello TKT-ab12cd'',
    q_session_id = None, q_language = str ''en''\<rparr>"
  have init: "QueryRequest_init cpython (str ''hello TKT-ab12cd'') None (str ''en'')
      = Inr request"
    by (simp add: QueryRequest_init_def validate_input_text_def validate_language_def
        SUPPORTED_LANGUAGES_def request_def runtime_defs)
  have en: "lower cpython (str ''en'') = str ''en''" by (simp add: runtime_defs)
  have mr: "lower cpython (str ''mr'') = str ''mr''" by (simp add: runtime_defs)
  have greet: "detect_greeting cpython (str ''hello TKT-ab12cd'') = (True, str ''hello'')"
    by (simp add: runtime_defs greeting_defs)
  have ident: "detect_ticket_id_or_mobile cpython (str ''hello TKT-ab12cd'')
       = Inr (Some (str ''TKT-ab12cd''), Some (str ''ticket_id''))"
    by (simp add: runtime_defs identifier_defs)
  from greeting_overrides_dialogue [OF init en mr greet, of db_manager E w]
  obtain lang where l: "language_of (q_language request) = Some lang"
    and r: "fst (process_query cpython db_manager E request w)
       = Reply (greeting_reply lang (str ''hello'')) (q_language request)
           (or_else (q_session_id request) (generate_session_id E)) (q_language request)"
    and k: "lookups (snd (process_query cpython db_manager E request w)) = lookups w"
      "USER_SESSION_STATE (snd (process_query cpython db_manager E request w))
         = USER_SESSION_STATE w"
    by blast
  from l have "lang = En" by (simp add: request_def language_of_def)
  then have "greeting_reply lang (str ''hello'')
      = str ''Hello! '' @ MAHA_AASTHA_KNOWLEDGE_BASE En welcome_message"
    by (simp add: greeting_reply_def str_def)
  with r k ident show "detect_ticket_id_or_mobile cpython (str ''hello TKT-ab12cd'')
       = Inr (Some (str ''TKT-ab12cd''), Some (str ''ticket_id''))
     \<and> fst (process_query cpython db_manager E
              \<lparr>q_input_text = str ''hello TKT-ab12cd'', q_session_id = None,
               q_language = str ''en''\<rparr> w)
       = Reply (str ''Hello! '' @ MAHA_AASTHA_KNOWLEDGE_BASE En welcome_message) (str ''en'')
           (generate_session_id E) (str ''en'')
     \<and> lookups (snd (process_query cpython db_manager E
              \<lparr>q_input_text = str ''hello TKT-ab12cd'', q_session_id = None,
               q_language = str ''en''\<rparr> w)) = lookups w
     \<and> USER_SESSION_STATE (snd (process_query cpython db_manager E
              \<lparr>q_input_text = str ''hello TKT-ab12cd'', q_session_id = None,
               q_language = str ''en''\<rparr> w)) = USER_SESSION_STATE w"
    by (simp add: request_def or_else_def)
qed

end
